theory Spec2Isabelle
  imports Complex_Main "HOL-Library.Monad_Syntax" "HOL-Library.AList"
    "HOL-Library.Code_Target_Numeral"
begin

section \<open>JavaScript values as the program sees them\<close>

text \<open>
  The program is an Express API over JSON files. Every value it handles is either parsed
  from JSON (a file of the db directory, a request body) or is on its way into
  \<^verbatim>\<open>JSON.stringify\<close> (a record written to a file, a response body). Values are
  therefore modelled in their JSON form:
  \<^item> \<^verbatim>\<open>undefined\<close> is \<open>None\<close> of \<open>jsval option\<close>; an object is a finite association
    list, and a property holding \<^verbatim>\<open>undefined\<close> is an absent property (both read as
    \<^verbatim>\<open>undefined\<close> and \<^verbatim>\<open>JSON.stringify\<close> writes neither);
  \<^item> a computed number (\<open>jsnum\<close>) may be \<^verbatim>\<open>NaN\<close> or infinite; it enters a record
    through \<open>of_num\<close>, which is what \<^verbatim>\<open>JSON.stringify\<close> makes of it (\<^verbatim>\<open>null\<close>
    for \<^verbatim>\<open>NaN\<close> and the infinities);
  \<^item> a finite number is the rational value of an IEEE-754 double: reading a numeral and
    every arithmetic operation round the exact result to the nearest double
    (\<open>round_double\<close>, ties to the even mantissa, overflow to an infinity). A number of a
    parsed JSON text is the double its literal stands for; the files and request bodies
    considered hold numbers within the range of doubles (a literal beyond it is read by
    \<^verbatim>\<open>JSON.parse\<close> as an infinity, which is not a value in JSON form). Negative zero is
    not distinguished from zero: no operation of the program tells them apart (it
    compares, adds, converts to strings and to JSON, and divides only by a limit that is
    not zero);
  \<^item> a string is a list of 8-bit characters, read as code units below 256;
  \<^item> a thrown exception is \<open>None\<close> of the result of a computation (the handlers
    catch exceptions without looking at them, and the only exceptions that can arise are
    TypeErrors);
  \<^item> properties inherited from the built-in prototypes (\<^verbatim>\<open>constructor\<close>,
    \<^verbatim>\<open>toString\<close>, ...) are not values of the model: property names are data field
    names, \<^verbatim>\<open>length\<close> and array indices.
\<close>

datatype jsval =
    JNull
  | JBool bool
  | JNum rat
  | JStr string
  | JArr "jsval list"
  | JObj "(string \<times> jsval) list"

datatype jsnum = NaN | NegInf | Num rat | PosInf

definition of_num :: "jsnum \<Rightarrow> jsval" where
  "of_num n = (case n of Num r \<Rightarrow> JNum r | _ \<Rightarrow> JNull)"

subsection \<open>Characters and strings\<close>

definition char_code :: "char \<Rightarrow> nat" where
  "char_code c = of_char c"

definition is_ws :: "char \<Rightarrow> bool" where
  "is_ws c = (char_code c \<in> {9, 10, 11, 12, 13, 32, 160})"

definition is_digit :: "char \<Rightarrow> bool" where
  "is_digit c = (48 \<le> char_code c \<and> char_code c \<le> 57)"

definition trimStart :: "string \<Rightarrow> string" where
  "trimStart s = dropWhile is_ws s"

definition trim :: "string \<Rightarrow> string" where
  "trim s = rev (dropWhile is_ws (rev (dropWhile is_ws s)))"

definition lower_char :: "char \<Rightarrow> char" where
  "lower_char c =
     (let n = char_code c in
      if (65 \<le> n \<and> n \<le> 90) \<or> (192 \<le> n \<and> n \<le> 222 \<and> n \<noteq> 215)
      then char_of (n + 32) else c)"

definition toLowerCase :: "string \<Rightarrow> string" where
  "toLowerCase s = map lower_char s"

fun is_prefix :: "string \<Rightarrow> string \<Rightarrow> bool" where
  "is_prefix [] ys = True"
| "is_prefix (x # xs) [] = False"
| "is_prefix (x # xs) (y # ys) = (x = y \<and> is_prefix xs ys)"

text \<open>\<^verbatim>\<open>s.includes(q)\<close>: \<open>q\<close> occurs in \<open>s\<close> as a contiguous substring.\<close>

fun str_includes :: "string \<Rightarrow> string \<Rightarrow> bool" where
  "str_includes [] q = (q = [])"
| "str_includes (c # cs) q = (is_prefix q (c # cs) \<or> str_includes cs q)"

fun join :: "string \<Rightarrow> string list \<Rightarrow> string" where
  "join sep [] = []"
| "join sep [s] = s"
| "join sep (s # t # ss) = s @ sep @ join sep (t # ss)"

subsection \<open>Numerals\<close>

definition digit_char :: "nat \<Rightarrow> char" where
  "digit_char d = char_of (48 + d)"

fun digits_of :: "nat \<Rightarrow> string" where
  "digits_of n = (if n < 10 then [digit_char n] else digits_of (n div 10) @ [digit_char (n mod 10)])"

declare digits_of.simps [simp del]

subsection \<open>Doubles\<close>

text \<open>
  \<open>binary_exponent a\<close> and \<open>decimal_exponent a\<close>, for a positive \<open>a\<close>, are the exponents
  \<open>e\<close> with \<open>2^e \<le> a < 2^(e+1)\<close> and \<open>10^e \<le> a < 10^(e+1)\<close>: the difference of the
  lengths of numerator and denominator, or one less.
\<close>

fun bit_length :: "nat \<Rightarrow> nat" where
  "bit_length n = (if n = 0 then 0 else Suc (bit_length (n div 2)))"

declare bit_length.simps [simp del]

definition pow2 :: "int \<Rightarrow> rat" where
  "pow2 e = (if 0 \<le> e then 2 ^ nat e else 1 / 2 ^ nat (- e))"

definition pow10 :: "int \<Rightarrow> rat" where
  "pow10 e = (if 0 \<le> e then 10 ^ nat e else 1 / 10 ^ nat (- e))"

definition binary_exponent :: "rat \<Rightarrow> int" where
  "binary_exponent a =
     (let (p, q) = quotient_of a; e = int (bit_length (nat p)) - int (bit_length (nat q))
      in if pow2 e \<le> a then e else e - 1)"

definition decimal_exponent :: "rat \<Rightarrow> int" where
  "decimal_exponent a =
     (let (p, q) = quotient_of a;
          e = int (length (digits_of (nat p))) - int (length (digits_of (nat q)))
      in if pow10 e \<le> a then e else e - 1)"

definition round_half_even :: "rat \<Rightarrow> int" where
  "round_half_even x =
     (let f = \<lfloor>x\<rfloor>; d = x - of_int f
      in if d < 1 / 2 \<or> (d = 1 / 2 \<and> even f) then f else f + 1)"

text \<open>
  The double nearest to a rational. An integer of magnitude up to \<open>2^53\<close> is a double.
  Otherwise the number is a mantissa \<open>m\<close> of at most 53 bits times \<open>2^(e-52)\<close>, where
  \<open>e\<close> is the exponent of the number or, for a subnormal number, the least exponent
  \<open>-1022\<close>, and the mantissa is rounded to the nearest integer, ties to the even one. The
  result is an infinity when it reaches \<open>2^1024\<close>: when \<open>e\<close> is above 1023, or \<open>e\<close>
  is 1023 and the mantissa has been rounded up to \<open>2^53\<close>.
\<close>

definition round_double :: "rat \<Rightarrow> jsnum" where
  "round_double x =
     (if of_int \<lfloor>x\<rfloor> = x \<and> \<bar>x\<bar> \<le> 2 ^ 53 then Num x
      else let a = \<bar>x\<bar>; e = max (binary_exponent a) (- 1022);
               m = round_half_even (a / pow2 (e - 52))
           in if 1023 < e \<or> (e = 1023 \<and> m = 2 ^ 53) then (if x < 0 then NegInf else PosInf)
              else Num (of_int (if x < 0 then - m else m) * pow2 (e - 52)))"

subsection \<open>Numbers and strings\<close>

text \<open>
  \<^verbatim>\<open>Number.prototype.toString\<close>: the shortest decimal numeral that reads back as the
  same double, at most 17 digits (\<open>shortest_digits\<close> gives its digits as a number and the
  exponent of the last digit), written with the decimal point at position \<open>n\<close> in
  positional notation for \<open>-6 < n \<le> 21\<close> and in exponent notation otherwise.
\<close>

fun shortest_digits :: "nat \<Rightarrow> nat \<Rightarrow> rat \<Rightarrow> int \<Rightarrow> nat \<times> int" where
  "shortest_digits 0 k a e = (nat (round_half_even (a / pow10 (e + 1 - int k))), e + 1 - int k)"
| "shortest_digits (Suc fuel) k a e =
     (let q = e + 1 - int k; s = round_half_even (a / pow10 q)
      in if round_double (of_int s * pow10 q) = Num a then (nat s, q)
         else shortest_digits fuel (Suc k) a e)"

definition strip_zeros :: "string \<Rightarrow> string" where
  "strip_zeros ds = rev (dropWhile (\<lambda>c. c = CHR ''0'') (rev ds))"

definition num_to_string :: "rat \<Rightarrow> string" where
  "num_to_string r =
     (if r = 0 then ''0''
      else let a = \<bar>r\<bar>; (s, q) = shortest_digits 16 1 a (decimal_exponent a);
               n = q + int (length (digits_of s)); ds = strip_zeros (digits_of s);
               k = int (length ds)
           in (if r < 0 then ''-'' else []) @
              (if k \<le> n \<and> n \<le> 21 then ds @ replicate (nat (n - k)) CHR ''0''
               else if 0 < n \<and> n \<le> 21 then take (nat n) ds @ ''.'' @ drop (nat n) ds
               else if - 6 < n \<and> n \<le> 0 then ''0.'' @ replicate (nat (- n)) CHR ''0'' @ ds
               else (if k = 1 then ds else take 1 ds @ ''.'' @ drop 1 ds) @ ''e''
                    @ (if 0 < n - 1 then ''+'' else ''-'') @ digits_of (nat \<bar>n - 1\<bar>)))"

text \<open>The value of a character as a digit in some radix up to 36, if it is one.\<close>

definition digit_val :: "nat \<Rightarrow> char \<Rightarrow> nat option" where
  "digit_val radix c =
     (let n = char_code c;
          v = (if 48 \<le> n \<and> n \<le> 57 then n - 48
               else if 97 \<le> n \<and> n \<le> 122 then n - 87
               else if 65 \<le> n \<and> n \<le> 90 then n - 55
               else 36)
      in if v < radix then Some v else None)"

definition radix_digits :: "nat \<Rightarrow> string \<Rightarrow> string" where
  "radix_digits radix s = takeWhile (\<lambda>c. digit_val radix c \<noteq> None) s"

definition radix_value :: "nat \<Rightarrow> string \<Rightarrow> nat" where
  "radix_value radix s = foldl (\<lambda>acc c. acc * radix + (case digit_val radix c of Some v \<Rightarrow> v | None \<Rightarrow> 0)) 0 s"

text \<open>
  Splitting an unsigned decimal literal: integer digits, fraction digits (after a dot),
  exponent (after \<^verbatim>\<open>e\<close> or \<^verbatim>\<open>E\<close>, only when at least one digit follows) and what is
  left over; \<open>None\<close> when no digit was read.
\<close>

definition split_exponent :: "string \<Rightarrow> int \<times> string" where
  "split_exponent s =
     (case s of
        [] \<Rightarrow> (0, s)
      | c # t \<Rightarrow>
          if c = CHR ''e'' \<or> c = CHR ''E'' then
            (let (neg, u) = (case t of [] \<Rightarrow> (False, t)
                             | d # v \<Rightarrow> if d = CHR ''-'' then (True, v)
                                        else if d = CHR ''+'' then (False, v) else (False, t));
                 ds = takeWhile is_digit u
             in if ds = [] then (0, s)
                else ((if neg then - int (radix_value 10 ds) else int (radix_value 10 ds)),
                      dropWhile is_digit u))
          else (0, s))"

definition split_decimal :: "string \<Rightarrow> (rat \<times> string) option" where
  "split_decimal s =
     (let ip = takeWhile is_digit s; r1 = dropWhile is_digit s;
          (fp, r2) = (case r1 of [] \<Rightarrow> ([], r1)
                      | c # t \<Rightarrow> if c = CHR ''.'' \<and> (ip \<noteq> [] \<or> takeWhile is_digit t \<noteq> [])
                                 then (takeWhile is_digit t, dropWhile is_digit t) else ([], r1))
      in if ip = [] \<and> fp = [] then None
         else let (e, r3) = split_exponent r2;
                  m = of_nat (radix_value 10 ip) + of_nat (radix_value 10 fp) / 10 ^ length fp
              in Some ((if e < 0 then m / 10 ^ nat (- e) else m * 10 ^ nat e), r3))"

definition split_sign :: "string \<Rightarrow> bool \<times> string" where
  "split_sign s =
     (case s of [] \<Rightarrow> (False, s)
      | c # t \<Rightarrow> if c = CHR ''-'' then (True, t) else if c = CHR ''+'' then (False, t) else (False, s))"

text \<open>The number that a signed numeral of exact value \<open>r\<close> stands for.\<close>

definition signed :: "bool \<Rightarrow> rat \<Rightarrow> jsnum" where
  "signed neg r = round_double (if neg then - r else r)"

text \<open>\<^verbatim>\<open>Number(s)\<close> for a string: the whole trimmed string must be a numeric literal.\<close>

definition radix_literal :: "nat \<Rightarrow> string \<Rightarrow> jsnum" where
  "radix_literal radix s =
     (if s \<noteq> [] \<and> radix_digits radix s = s then round_double (of_nat (radix_value radix s))
      else NaN)"

definition str_to_number :: "string \<Rightarrow> jsnum" where
  "str_to_number s =
     (let t = trim s in
      if t = [] then Num 0
      else if is_prefix ''0x'' t \<or> is_prefix ''0X'' t then radix_literal 16 (drop 2 t)
      else if is_prefix ''0o'' t \<or> is_prefix ''0O'' t then radix_literal 8 (drop 2 t)
      else if is_prefix ''0b'' t \<or> is_prefix ''0B'' t then radix_literal 2 (drop 2 t)
      else let (neg, u) = split_sign t in
           if u = ''Infinity'' then (if neg then NegInf else PosInf)
           else (case split_decimal u of
                   Some (r, []) \<Rightarrow> signed neg r
                 | _ \<Rightarrow> NaN))"

text \<open>\<^verbatim>\<open>parseFloat\<close> and \<^verbatim>\<open>parseInt\<close> on a string read the longest prefix that is a number.\<close>

definition str_parseFloat :: "string \<Rightarrow> jsnum" where
  "str_parseFloat s =
     (let (neg, u) = split_sign (trimStart s) in
      if is_prefix ''Infinity'' u then (if neg then NegInf else PosInf)
      else (case split_decimal u of Some (r, _) \<Rightarrow> signed neg r | None \<Rightarrow> NaN))"

text \<open>
  \<open>str_parseInt radix s\<close>: \<open>radix = None\<close> is the call without a radix, which reads a
  \<^verbatim>\<open>0x\<close> prefix as hexadecimal; the program's other calls pass 10.
\<close>

definition str_parseInt :: "nat option \<Rightarrow> string \<Rightarrow> jsnum" where
  "str_parseInt radix s =
     (let (neg, u) = split_sign (trimStart s);
          hex = (radix = None \<and> (is_prefix ''0x'' u \<or> is_prefix ''0X'' u));
          R = (if hex then 16 else (case radix of None \<Rightarrow> 10 | Some k \<Rightarrow> k));
          ds = radix_digits R (if hex then drop 2 u else u)
      in if ds = [] then NaN else signed neg (of_nat (radix_value R ds)))"

subsection \<open>Coercions\<close>

definition truthy :: "jsval option \<Rightarrow> bool" where
  "truthy v =
     (case v of
        None \<Rightarrow> False
      | Some JNull \<Rightarrow> False
      | Some (JBool b) \<Rightarrow> b
      | Some (JNum r) \<Rightarrow> r \<noteq> 0
      | Some (JStr s) \<Rightarrow> s \<noteq> []
      | Some _ \<Rightarrow> True)"

text \<open>\<^verbatim>\<open>a || b\<close> on values.\<close>

definition or_else :: "jsval option \<Rightarrow> jsval option \<Rightarrow> jsval option" where
  "or_else a b = (if truthy a then a else b)"

text \<open>
  \<^verbatim>\<open>ToString\<close>. An array is joined with commas, \<^verbatim>\<open>null\<close> elements giving the empty
  string. A plain object gives \<^verbatim>\<open>[object Object]\<close> through the inherited
  \<^verbatim>\<open>toString\<close>; when the object has a property of that name itself (parsed from
  JSON, so not a function), no conversion applies and a TypeError is thrown.
\<close>

fun to_str :: "jsval \<Rightarrow> string option"
  and join_elems :: "jsval list \<Rightarrow> string option" where
  "to_str JNull = Some ''null''"
| "to_str (JBool b) = Some (if b then ''true'' else ''false'')"
| "to_str (JNum r) = Some (num_to_string r)"
| "to_str (JStr s) = Some s"
| "to_str (JArr xs) = join_elems xs"
| "to_str (JObj kvs) = (if map_of kvs ''toString'' = None then Some ''[object Object]'' else None)"
| "join_elems [] = Some []"
| "join_elems (x # xs) =
     (case (if x = JNull then Some [] else to_str x) of
        None \<Rightarrow> None
      | Some s \<Rightarrow>
          (if xs = [] then Some s
           else (case join_elems xs of None \<Rightarrow> None | Some t \<Rightarrow> Some (s @ '','' @ t))))"

definition to_string :: "jsval option \<Rightarrow> string option" where
  "to_string v = (case v of None \<Rightarrow> Some ''undefined'' | Some x \<Rightarrow> to_str x)"

text \<open>\<^verbatim>\<open>ToNumber\<close>: arrays and objects go through their string.\<close>

definition to_number :: "jsval option \<Rightarrow> jsnum option" where
  "to_number v =
     (case v of
        None \<Rightarrow> Some NaN
      | Some JNull \<Rightarrow> Some (Num 0)
      | Some (JBool b) \<Rightarrow> Some (Num (if b then 1 else 0))
      | Some (JNum r) \<Rightarrow> Some (Num r)
      | Some (JStr s) \<Rightarrow> Some (str_to_number s)
      | Some (JArr xs) \<Rightarrow> map_option str_to_number (to_str (JArr xs))
      | Some (JObj kvs) \<Rightarrow> map_option str_to_number (to_str (JObj kvs)))"

definition isNaN :: "jsval option \<Rightarrow> bool option" where
  "isNaN v = map_option (\<lambda>n. n = NaN) (to_number v)"

definition parseInt :: "jsval option \<Rightarrow> jsnum option" where
  "parseInt v = map_option (str_parseInt None) (to_string v)"

definition parseInt10 :: "jsval option \<Rightarrow> jsnum option" where
  "parseInt10 v = map_option (str_parseInt (Some 10)) (to_string v)"

definition parseFloat :: "jsval option \<Rightarrow> jsnum option" where
  "parseFloat v = map_option str_parseFloat (to_string v)"

text \<open>Comparison of numbers: anything compared with \<^verbatim>\<open>NaN\<close> is false.\<close>

definition num_lt :: "jsnum \<Rightarrow> jsnum \<Rightarrow> bool" where
  "num_lt a b =
     (case (a, b) of
        (NaN, _) \<Rightarrow> False
      | (_, NaN) \<Rightarrow> False
      | (NegInf, NegInf) \<Rightarrow> False
      | (NegInf, _) \<Rightarrow> True
      | (_, NegInf) \<Rightarrow> False
      | (PosInf, _) \<Rightarrow> False
      | (_, PosInf) \<Rightarrow> True
      | (Num x, Num y) \<Rightarrow> x < y)"

definition num_le :: "jsnum \<Rightarrow> jsnum \<Rightarrow> bool" where
  "num_le a b = (a \<noteq> NaN \<and> b \<noteq> NaN \<and> \<not> num_lt b a)"

text \<open>\<^verbatim>\<open>v < 0\<close>, \<^verbatim>\<open>v <= 0\<close> for a value \<open>v\<close>: the value is converted to a number.\<close>

definition lt_zero :: "jsval option \<Rightarrow> bool option" where
  "lt_zero v = map_option (\<lambda>n. num_lt n (Num 0)) (to_number v)"

definition le_zero :: "jsval option \<Rightarrow> bool option" where
  "le_zero v = map_option (\<lambda>n. num_le n (Num 0)) (to_number v)"

text \<open>\<^verbatim>\<open>x || d\<close> on numbers.\<close>

definition num_or :: "jsnum \<Rightarrow> jsnum \<Rightarrow> jsnum" where
  "num_or n d = (if n = NaN \<or> n = Num 0 then d else n)"

text \<open>
  Arithmetic on numbers, \<^verbatim>\<open>a + b\<close>, \<^verbatim>\<open>a - b\<close>, \<^verbatim>\<open>a * b\<close>, \<^verbatim>\<open>a / b\<close> and
  \<^verbatim>\<open>Math.ceil\<close>: the exact result rounded to a double, with the usual rules for
  \<^verbatim>\<open>NaN\<close> and the infinities. \<open>num_succ\<close> is \<^verbatim>\<open>x + 1\<close>.
\<close>

definition num_neg :: "jsnum \<Rightarrow> jsnum" where
  "num_neg a = (case a of NaN \<Rightarrow> NaN | NegInf \<Rightarrow> PosInf | Num x \<Rightarrow> Num (- x) | PosInf \<Rightarrow> NegInf)"

definition num_add :: "jsnum \<Rightarrow> jsnum \<Rightarrow> jsnum" where
  "num_add a b =
     (case a of
        NaN \<Rightarrow> NaN
      | Num x \<Rightarrow> (case b of Num y \<Rightarrow> round_double (x + y) | _ \<Rightarrow> b)
      | _ \<Rightarrow> (if b = NaN \<or> b = num_neg a then NaN else a))"

definition num_sub :: "jsnum \<Rightarrow> jsnum \<Rightarrow> jsnum" where
  "num_sub a b = num_add a (num_neg b)"

definition num_succ :: "jsnum \<Rightarrow> jsnum" where
  "num_succ n = num_add n (Num 1)"

definition num_mul :: "jsnum \<Rightarrow> jsnum \<Rightarrow> jsnum" where
  "num_mul a b =
     (case (a, b) of
        (Num x, Num y) \<Rightarrow> round_double (x * y)
      | _ \<Rightarrow> if a = NaN \<or> b = NaN \<or> a = Num 0 \<or> b = Num 0 then NaN
             else if num_lt a (Num 0) = num_lt b (Num 0) then PosInf else NegInf)"

definition num_div :: "jsnum \<Rightarrow> jsnum \<Rightarrow> jsnum" where
  "num_div a b =
     (case (a, b) of
        (Num x, Num y) \<Rightarrow>
          if y \<noteq> 0 then round_double (x / y)
          else if x = 0 then NaN else if 0 < x then PosInf else NegInf
      | (Num x, _) \<Rightarrow> if b = NaN then NaN else Num 0
      | (_, Num y) \<Rightarrow> if a = NaN then NaN
                     else if (a = PosInf) = (0 \<le> y) then PosInf else NegInf
      | _ \<Rightarrow> NaN)"

definition num_ceil :: "jsnum \<Rightarrow> jsnum" where
  "num_ceil n = (case n of Num r \<Rightarrow> Num (of_int \<lceil>r\<rceil>) | _ \<Rightarrow> n)"

definition num_max :: "jsnum \<Rightarrow> jsnum \<Rightarrow> jsnum" where
  "num_max a b = (if a = NaN \<or> b = NaN then NaN else if num_lt a b then b else a)"

text \<open>
  \<^verbatim>\<open>Math.max(...vs)\<close>: every argument is converted (a conversion may throw), the
  result is \<^verbatim>\<open>NaN\<close> as soon as one argument is, and \<^verbatim>\<open>-Infinity\<close> without arguments.
\<close>

fun Math_max :: "jsval option list \<Rightarrow> jsnum option" where
  "Math_max [] = Some NegInf"
| "Math_max (v # vs) =
     (case to_number v of
        None \<Rightarrow> None
      | Some n \<Rightarrow> (case Math_max vs of None \<Rightarrow> None | Some m \<Rightarrow> Some (num_max n m)))"

text \<open>
  \<^verbatim>\<open>v === n\<close> for a value and a computed number, and \<^verbatim>\<open>a === b\<close> for two values.
  Arrays and objects are compared by reference; the two sides always come from different
  parses (a file, a request), so they are never the same object.
\<close>

definition eq_num :: "jsval option \<Rightarrow> jsnum \<Rightarrow> bool" where
  "eq_num v n = (case (v, n) of (Some (JNum r), Num q) \<Rightarrow> r = q | _ \<Rightarrow> False)"

definition strict_eq :: "jsval option \<Rightarrow> jsval option \<Rightarrow> bool" where
  "strict_eq a b =
     (case a of
        Some (JArr _) \<Rightarrow> False
      | Some (JObj _) \<Rightarrow> False
      | _ \<Rightarrow> a = b)"

subsection \<open>Properties\<close>

text \<open>
  \<open>get_prop v k\<close> is \<^verbatim>\<open>v[k]\<close>: reading a property of \<^verbatim>\<open>null\<close> or
  \<^verbatim>\<open>undefined\<close> throws; an absent property reads as \<^verbatim>\<open>undefined\<close>.
\<close>

definition index_of_key :: "string \<Rightarrow> nat option" where
  "index_of_key k =
     (if k \<noteq> [] \<and> list_all is_digit k \<and> digits_of (radix_value 10 k) = k
      then Some (radix_value 10 k) else None)"

definition elem_at :: "'a list \<Rightarrow> string \<Rightarrow> 'a option" where
  "elem_at xs k =
     (case index_of_key k of
        Some i \<Rightarrow> if i < length xs then Some (xs ! i) else None
      | None \<Rightarrow> None)"

definition get_prop :: "jsval option \<Rightarrow> string \<Rightarrow> jsval option option" where
  "get_prop v k =
     (case v of
        None \<Rightarrow> None
      | Some JNull \<Rightarrow> None
      | Some (JObj kvs) \<Rightarrow> Some (map_of kvs k)
      | Some (JArr xs) \<Rightarrow>
          Some (if k = ''length'' then Some (JNum (of_nat (length xs))) else elem_at xs k)
      | Some (JStr s) \<Rightarrow>
          Some (if k = ''length'' then Some (JNum (of_nat (length s)))
                else map_option (\<lambda>c. JStr [c]) (elem_at s k))
      | Some _ \<Rightarrow> Some None)"

text \<open>The own enumerable properties that \<^verbatim>\<open>{...v}\<close> copies.\<close>

definition indexed :: "'a list \<Rightarrow> (string \<times> 'a) list" where
  "indexed xs = zip (map digits_of [0..<length xs]) xs"

definition own_props :: "jsval option \<Rightarrow> (string \<times> jsval) list" where
  "own_props v =
     (case v of
        Some (JObj kvs) \<Rightarrow> kvs
      | Some (JArr xs) \<Rightarrow> indexed xs
      | Some (JStr s) \<Rightarrow> indexed (map (\<lambda>c. JStr [c]) s)
      | _ \<Rightarrow> [])"

text \<open>
  Building an object: \<open>set_prop\<close> is one \<^verbatim>\<open>key: value\<close> of an object literal (or an
  assignment), \<open>spread\<close> is \<^verbatim>\<open>...v\<close>. Storing \<^verbatim>\<open>undefined\<close> removes the property.
\<close>

definition set_prop :: "string \<Rightarrow> jsval option \<Rightarrow> (string \<times> jsval) list \<Rightarrow> (string \<times> jsval) list" where
  "set_prop k v obj = (case v of None \<Rightarrow> AList.delete k obj | Some x \<Rightarrow> AList.update k x obj)"

definition spread :: "jsval option \<Rightarrow> (string \<times> jsval) list \<Rightarrow> (string \<times> jsval) list" where
  "spread v obj = foldl (\<lambda>acc (k, x). AList.update k x acc) obj (own_props v)"

subsection \<open>Array methods with callbacks that may throw\<close>

fun js_find :: "('a \<Rightarrow> bool option) \<Rightarrow> 'a list \<Rightarrow> 'a option option" where
  "js_find p [] = Some None"
| "js_find p (x # xs) =
     (case p x of None \<Rightarrow> None | Some True \<Rightarrow> Some (Some x) | Some False \<Rightarrow> js_find p xs)"

text \<open>\<^verbatim>\<open>findIndex\<close>: the inner \<open>None\<close> is the result \<open>-1\<close>.\<close>

fun js_findIndex :: "('a \<Rightarrow> bool option) \<Rightarrow> 'a list \<Rightarrow> nat option option" where
  "js_findIndex p [] = Some None"
| "js_findIndex p (x # xs) =
     (case p x of
        None \<Rightarrow> None
      | Some True \<Rightarrow> Some (Some 0)
      | Some False \<Rightarrow> map_option (map_option Suc) (js_findIndex p xs))"

fun js_filter :: "('a \<Rightarrow> bool option) \<Rightarrow> 'a list \<Rightarrow> 'a list option" where
  "js_filter p [] = Some []"
| "js_filter p (x # xs) =
     (case p x of
        None \<Rightarrow> None
      | Some b \<Rightarrow> map_option (\<lambda>ys. if b then x # ys else ys) (js_filter p xs))"

fun js_map :: "('a \<Rightarrow> 'b option) \<Rightarrow> 'a list \<Rightarrow> 'b list option" where
  "js_map f [] = Some []"
| "js_map f (x # xs) =
     (case f x of None \<Rightarrow> None | Some y \<Rightarrow> map_option (\<lambda>ys. y # ys) (js_map f xs))"

text \<open>Calling an array method on a value that is not an array throws a TypeError.\<close>

definition as_array :: "jsval \<Rightarrow> jsval list option" where
  "as_array v = (case v of JArr xs \<Rightarrow> Some xs | _ \<Rightarrow> None)"

section \<open>The db directory and the clock\<close>

text \<open>
  The text of a file enters the program only through \<^verbatim>\<open>JSON.parse\<close> (and the test
  whether it is the empty string), so a text is kept as what these make of it: it is
  empty, it is not JSON, or it is the JSON text of a value. A file of the db directory
  does not exist, cannot be read, or holds a text. Files are named as the program names
  them (the file name it passes to \<^verbatim>\<open>path.join(dbDir, filename)\<close>).

  \<open>unwritable\<close> tells for which files \<^verbatim>\<open>fs.writeFileSync\<close> raises (leaving the file as
  it was). \<open>io\<close> records the calls of \<^verbatim>\<open>readFile\<close> and \<^verbatim>\<open>writeFile\<close> in order.
  \<open>clock\<close> gives the result of the k-th evaluation of
  \<^verbatim>\<open>new Date().toISOString()\<close>, \<open>localeCompare\<close> is the host's string collation,
  \<open>production\<close> is \<^verbatim>\<open>process.env.NODE_ENV === 'production'\<close>, \<open>stack_trace\<close> is the
  \<^verbatim>\<open>err.stack\<close> text the engine attaches to an uncaught exception.
\<close>

datatype file_text = Blank | Invalid | Encodes jsval

datatype db_file = Missing | Unreadable | Text file_text

datatype io_event = Read string | Write string jsval

record state =
  files :: "string \<Rightarrow> db_file"
  unwritable :: "string \<Rightarrow> bool"
  io :: "io_event list"
  clock :: "nat \<Rightarrow> string"
  ticks :: nat
  localeCompare :: "string \<Rightarrow> string \<Rightarrow> int"
  production :: bool
  stack_trace :: string

definition new_Date_toISOString :: "state \<Rightarrow> jsval \<times> state" where
  "new_Date_toISOString st = (JStr (clock st (ticks st)), st\<lparr>ticks := Suc (ticks st)\<rparr>)"

text \<open>The calls the program makes into \<^verbatim>\<open>fs\<close> and \<^verbatim>\<open>JSON\<close>; \<open>None\<close> is a raised error.\<close>

definition fs_existsSync :: "state \<Rightarrow> string \<Rightarrow> bool" where
  "fs_existsSync st filePath = (files st filePath \<noteq> Missing)"

definition fs_readFileSync :: "state \<Rightarrow> string \<Rightarrow> file_text option" where
  "fs_readFileSync st filePath = (case files st filePath of Text t \<Rightarrow> Some t | _ \<Rightarrow> None)"

definition fs_writeFileSync :: "string \<Rightarrow> file_text \<Rightarrow> state \<Rightarrow> state option" where
  "fs_writeFileSync filePath t st =
     (if unwritable st filePath then None
      else Some (st\<lparr>files := (files st)(filePath := Text t)\<rparr>))"

definition JSON_parse :: "file_text \<Rightarrow> jsval option" where
  "JSON_parse t = (case t of Encodes v \<Rightarrow> Some v | _ \<Rightarrow> None)"

definition JSON_stringify :: "jsval \<Rightarrow> file_text" where
  "JSON_stringify v = Encodes v"

section \<open>utils/database.js\<close>

text \<open>
  \<open>readFile_try\<close> and \<open>writeFile_try\<close> are the bodies of the two \<^verbatim>\<open>try\<close> blocks;
  \<open>readFile\<close> and \<open>writeFile\<close> add the \<^verbatim>\<open>catch\<close>.
\<close>

definition readFile_try :: "string \<Rightarrow> state \<Rightarrow> jsval option" where
  "readFile_try filename st =
     (if \<not> fs_existsSync st filename then Some (JArr [])
      else (case fs_readFileSync st filename of
              None \<Rightarrow> None
            | Some data \<Rightarrow> if data \<noteq> Blank then JSON_parse data else Some (JArr [])))"

definition readFile :: "string \<Rightarrow> state \<Rightarrow> jsval \<times> state" where
  "readFile filename st =
     ((case readFile_try filename st of Some v \<Rightarrow> v | None \<Rightarrow> JArr []),
      st\<lparr>io := io st @ [Read filename]\<rparr>)"

definition writeFile_try :: "string \<Rightarrow> jsval \<Rightarrow> state \<Rightarrow> state option" where
  "writeFile_try filename data st = fs_writeFileSync filename (JSON_stringify data) st"

definition writeFile :: "string \<Rightarrow> jsval \<Rightarrow> state \<Rightarrow> bool \<times> state" where
  "writeFile filename data st =
     (case writeFile_try filename data st of
        Some st1 \<Rightarrow> (True, st1\<lparr>io := io st @ [Write filename data]\<rparr>)
      | None \<Rightarrow> (False, st\<lparr>io := io st @ [Write filename data]\<rparr>))"

definition getAll :: "string \<Rightarrow> state \<Rightarrow> jsval \<times> state" where
  "getAll filename st = readFile filename st"

text \<open>The callback \<^verbatim>\<open>item => item.id === parseInt(id)\<close>.\<close>

definition id_matches :: "jsval option \<Rightarrow> jsval \<Rightarrow> bool option" where
  "id_matches id' item =
     (case get_prop (Some item) ''id'' of
        None \<Rightarrow> None
      | Some v \<Rightarrow> map_option (eq_num v) (parseInt id'))"

definition getById :: "string \<Rightarrow> jsval option \<Rightarrow> state \<Rightarrow> jsval option \<times> state" where
  "getById filename id' st =
     (let (data, st1) = readFile filename st in
      (case as_array data of
         None \<Rightarrow> None
       | Some xs \<Rightarrow>
           (case js_find (id_matches id') xs of
              None \<Rightarrow> None
            | Some found \<Rightarrow> or_else found (Some JNull)),
       st1))"

text \<open>
  The id of a new record:
  \<^verbatim>\<open>data.length > 0 ? Math.max(...data.map(item => item.id || 0)) + 1 : 1\<close>.
\<close>

definition gt_zero :: "jsval option \<Rightarrow> bool option" where
  "gt_zero v = map_option (\<lambda>n. num_lt (Num 0) n) (to_number v)"

definition id_or_zero :: "jsval \<Rightarrow> jsval option option" where
  "id_or_zero item = map_option (\<lambda>v. or_else v (Some (JNum 0))) (get_prop (Some item) ''id'')"

definition next_id :: "jsval \<Rightarrow> jsnum option" where
  "next_id data =
     (case get_prop (Some data) ''length'' of
        None \<Rightarrow> None
      | Some len \<Rightarrow>
          (case gt_zero len of
             None \<Rightarrow> None
           | Some False \<Rightarrow> Some (Num 1)
           | Some True \<Rightarrow>
               (case as_array data of
                  None \<Rightarrow> None
                | Some xs \<Rightarrow>
                    (case js_map id_or_zero xs of
                       None \<Rightarrow> None
                     | Some ids \<Rightarrow> map_option num_succ (Math_max ids)))))"

definition create :: "string \<Rightarrow> jsval option \<Rightarrow> state \<Rightarrow> jsval option \<times> state" where
  "create filename newRecord st =
     (let (data, st1) = readFile filename st in
      case next_id data of
        None \<Rightarrow> (None, st1)
      | Some id' \<Rightarrow>
          (let (createdAt, st2) = new_Date_toISOString st1;
               (updatedAt, st3) = new_Date_toISOString st2; record =
                        JObj (set_prop ''updatedAt'' (Some updatedAt)
                             (set_prop ''createdAt'' (Some createdAt)
                             (spread newRecord
                             (set_prop ''id'' (Some (of_num id')) []))))
           in case as_array data of
                None \<Rightarrow> (None, st3)
              | Some xs \<Rightarrow>
                  (let (ok, st4) = writeFile filename (JArr (xs @ [record])) st3
                   in (Some record, st4))))"

text \<open>
  \<open>field v k\<close> reads a property of a value already known not to be \<^verbatim>\<open>null\<close> (in
  \<open>update\<close>, the element whose \<^verbatim>\<open>id\<close> the search has just read).
\<close>

definition field :: "jsval \<Rightarrow> string \<Rightarrow> jsval option" where
  "field v k = (case get_prop (Some v) k of None \<Rightarrow> None | Some r \<Rightarrow> r)"

definition update :: "string \<Rightarrow> jsval option \<Rightarrow> jsval option \<Rightarrow> state \<Rightarrow> jsval option \<times> state" where
  "update filename id' updateData st =
     (let (data, st1) = readFile filename st in
      case as_array data of
        None \<Rightarrow> (None, st1)
      | Some xs \<Rightarrow>
          (case js_findIndex (id_matches id') xs of
             None \<Rightarrow> (None, st1)
           | Some None \<Rightarrow> (Some JNull, st1)
           | Some (Some index) \<Rightarrow>
               (let old = xs ! index;
                    (now, st2) = new_Date_toISOString st1;
                    merged = JObj (set_prop ''updatedAt'' (Some now)
                                  (set_prop ''createdAt'' (field old ''createdAt'')
                                  (set_prop ''id'' (field old ''id'')
                                  (spread updateData
                                  (spread (Some old) [])))));
                    (ok, st3) = writeFile filename (JArr (xs[index := merged])) st2
                in (Some merged, st3))))"

text \<open>The callback \<^verbatim>\<open>item => item.id !== parseInt(id)\<close>.\<close>

definition id_differs :: "jsval option \<Rightarrow> jsval \<Rightarrow> bool option" where
  "id_differs id' item = map_option Not (id_matches id' item)"

definition deleteRecord :: "string \<Rightarrow> jsval option \<Rightarrow> state \<Rightarrow> bool option \<times> state" where
  "deleteRecord filename id' st =
     (let (data, st1) = readFile filename st in
      case as_array data of
        None \<Rightarrow> (None, st1)
      | Some xs \<Rightarrow>
          (case js_filter (id_differs id') xs of
             None \<Rightarrow> (None, st1)
           | Some filteredData \<Rightarrow>
               if length filteredData = length xs then (Some False, st1)
               else (let (ok, st2) = writeFile filename (JArr filteredData) st1
                     in (Some True, st2))))"

text \<open>The callback of \<open>search\<close>.\<close>

definition field_includes :: "string \<Rightarrow> jsval option \<Rightarrow> jsval \<Rightarrow> bool option" where
  "field_includes fld val item =
     (case get_prop (Some item) fld of
        None \<Rightarrow> None
      | Some v \<Rightarrow>
          (case (if v = None \<or> v = Some JNull then Some [] else to_string v) of
             None \<Rightarrow> None
           | Some fieldValue \<Rightarrow>
               map_option (\<lambda>s. str_includes (toLowerCase fieldValue) (toLowerCase s))
                 (to_string val)))"

definition search :: "string \<Rightarrow> string \<Rightarrow> jsval option \<Rightarrow> state \<Rightarrow> jsval list option \<times> state" where
  "search filename fld val st =
     (let (data, st1) = readFile filename st in
      (case as_array data of
         None \<Rightarrow> None
       | Some xs \<Rightarrow> js_filter (field_includes fld val) xs,
       st1))"

definition filter_db :: "string \<Rightarrow> (jsval \<Rightarrow> bool option) \<Rightarrow> state \<Rightarrow> jsval list option \<times> state" where
  "filter_db filename filterFn st =
     (let (data, st1) = readFile filename st in
      (case as_array data of
         None \<Rightarrow> None
       | Some xs \<Rightarrow> js_filter filterFn xs,
       st1))"

text \<open>\<^verbatim>\<open>readFile(filename).length\<close>: the inner \<open>None\<close> is \<^verbatim>\<open>undefined\<close>.\<close>

definition count :: "string \<Rightarrow> state \<Rightarrow> jsval option option \<times> state" where
  "count filename st =
     (let (data, st1) = readFile filename st in (get_prop (Some data) ''length'', st1))"

section \<open>Requests and responses\<close>

text \<open>
  A request as the handlers see it, after Express has split the path into segments,
  decoded the route parameters and run \<^verbatim>\<open>express.json()\<close> and
  \<^verbatim>\<open>express.urlencoded()\<close>, which leave an object or an array in \<^verbatim>\<open>req.body\<close>
  (the empty object without a body). A response is the status code and the value given
  to \<^verbatim>\<open>res.json\<close>.
\<close>

datatype http_method = GET | POST | PUT | PATCH | DELETE

record request =
  http_method :: http_method
  path :: "string list"
  params :: "(string \<times> string) list"
  query :: "(string \<times> jsval) list"
  body :: jsval
  headers :: "(string \<times> string) list"

record response =
  statusCode :: nat
  json :: jsval

definition param :: "request \<Rightarrow> string \<Rightarrow> jsval option" where
  "param req k = map_option JStr (map_of (params req) k)"

section \<open>utils/responseHandler.js\<close>

definition success :: "jsval option \<Rightarrow> string \<Rightarrow> nat \<Rightarrow> state \<Rightarrow> jsval \<times> state" where
  "success data message code st =
     (let (timestamp, st1) = new_Date_toISOString st in
      (JObj (set_prop ''timestamp'' (Some timestamp)
            (set_prop ''data'' data
            (set_prop ''message'' (Some (JStr message))
            (set_prop ''statusCode'' (Some (JNum (of_nat code)))
            (set_prop ''status'' (Some (JBool True)) []))))),
       st1))"

text \<open>\<^verbatim>\<open>...(details && { details })\<close> adds the property only for a truthy \<open>details\<close>.\<close>

definition error :: "string \<Rightarrow> nat \<Rightarrow> jsval option \<Rightarrow> state \<Rightarrow> jsval \<times> state" where
  "error message code details st =
     (let (timestamp, st1) = new_Date_toISOString st in
      (JObj (set_prop ''timestamp'' (Some timestamp)
            (spread (if truthy details then Some (JObj (set_prop ''details'' details [])) else details)
            (set_prop ''message'' (Some (JStr message))
            (set_prop ''statusCode'' (Some (JNum (of_nat code)))
            (set_prop ''status'' (Some (JBool False)) []))))),
       st1))"

text \<open>
  \<open>paginated\<close> is only called with the \<open>page\<close> and \<open>limit\<close> the list routes compute,
  which are numbers other than 0 and \<^verbatim>\<open>NaN\<close>, and with the length of a list as the
  total.
\<close>

definition paginated :: "jsval \<Rightarrow> jsnum \<Rightarrow> jsnum \<Rightarrow> nat \<Rightarrow> state \<Rightarrow> jsval \<times> state" where
  "paginated data page limit total' st =
     (let totalPages = num_ceil (num_div (Num (of_nat total')) limit);
          (timestamp, st1) = new_Date_toISOString st
      in (JObj (set_prop ''timestamp'' (Some timestamp)
               (set_prop ''pagination'' (Some (JObj
                  (set_prop ''hasPrev'' (Some (JBool (num_lt (Num 1) page)))
                  (set_prop ''hasNext'' (Some (JBool (num_lt page totalPages)))
                  (set_prop ''totalPages'' (Some (of_num totalPages))
                  (set_prop ''total'' (Some (JNum (of_nat total')))
                  (set_prop ''limit'' (Some (of_num limit))
                  (set_prop ''page'' (Some (of_num page)) []))))))))
               (set_prop ''data'' (Some data)
               (set_prop ''statusCode'' (Some (JNum 200))
               (set_prop ''status'' (Some (JBool True)) []))))),
          st1))"

section \<open>utils/validator.js\<close>

text \<open>
  A validator either answers the request itself (\<open>Some\<close> response) or calls
  \<^verbatim>\<open>next()\<close> (\<open>None\<close>).
\<close>

definition is_missing :: "jsval \<Rightarrow> string \<Rightarrow> bool" where
  "is_missing b fld =
     (case field b fld of
        None \<Rightarrow> True
      | Some JNull \<Rightarrow> True
      | Some (JStr s) \<Rightarrow> trim s = []
      | Some _ \<Rightarrow> False)"

definition validateRequired :: "string list \<Rightarrow> request \<Rightarrow> response option" where
  "validateRequired requiredFields req =
     (let missing = filter (is_missing (body req)) requiredFields in
      if length missing > 0
      then Some \<lparr>statusCode = 400,
                 json = JObj [(''status'', JBool False), (''statusCode'', JNum 400),
                              (''message'', JStr ''Validation Error''),
                              (''details'', JStr (''Missing required fields: '' @ join '', '' missing))]\<rparr>
      else None)"

text \<open>
  The pattern \<^verbatim>\<open>/^[^\s@]+@[^\s@]+\.[^\s@]+$/\<close>: one \<^verbatim>\<open>@\<close>, no white space, something
  before the \<^verbatim>\<open>@\<close>, and after it a dot that is neither first nor last.
\<close>

definition plain_char :: "char \<Rightarrow> bool" where
  "plain_char c = (\<not> is_ws c \<and> c \<noteq> CHR ''@'')"

definition emailRegex_test :: "string \<Rightarrow> bool" where
  "emailRegex_test s =
     (let user = takeWhile (\<lambda>c. c \<noteq> CHR ''@'') s; rest = dropWhile (\<lambda>c. c \<noteq> CHR ''@'') s
      in case rest of
           [] \<Rightarrow> False
         | _ # domain \<Rightarrow>
             user \<noteq> [] \<and> list_all plain_char user \<and> list_all plain_char domain
             \<and> length domain \<ge> 3 \<and> CHR ''.'' \<in> set (butlast (tl domain)))"

text \<open>The outer \<open>None\<close> of the next two validators is an exception thrown by a conversion.\<close>

definition validateEmail :: "request \<Rightarrow> response option option" where
  "validateEmail req =
     (let email = field (body req) ''email'' in
      if truthy email then
        (case to_string email of
           None \<Rightarrow> None
         | Some s \<Rightarrow>
             if \<not> emailRegex_test s
             then Some (Some \<lparr>statusCode = 400,
                              json = JObj [(''status'', JBool False), (''statusCode'', JNum 400),
                                           (''message'', JStr ''Invalid email format'')]\<rparr>)
             else Some None)
      else Some None)"

definition validatePhone :: "request \<Rightarrow> response option option" where
  "validatePhone req =
     (let phone = field (body req) ''phone'' in
      if phone \<noteq> None \<and> phone \<noteq> Some JNull then
        (case to_string phone of
           None \<Rightarrow> None
         | Some s \<Rightarrow>
             (let digitsOnly = filter is_digit s in
              if \<not> (length digitsOnly = 10)
              then Some (Some \<lparr>statusCode = 400,
                               json = JObj [(''status'', JBool False), (''statusCode'', JNum 400),
                                            (''message'', JStr ''Invalid phone format. Use 10 digits.'')]\<rparr>)
              else Some None))
      else Some None)"

text \<open>
  \<open>validateId\<close>: route parameters are strings, so the conversions cannot throw.
  \<^verbatim>\<open>a || b\<close> on parameters skips an absent or empty one.
\<close>

definition param_or :: "string option \<Rightarrow> string option \<Rightarrow> string option" where
  "param_or a b = (case a of Some (c # cs) \<Rightarrow> a | _ \<Rightarrow> b)"

definition route_id :: "request \<Rightarrow> string option" where
  "route_id req =
     param_or (param_or (param_or (map_of (params req) ''id'') (map_of (params req) ''userId''))
                        (map_of (params req) ''orderId''))
              (map_of (params req) ''productId'')"

definition validateId :: "request \<Rightarrow> response option" where
  "validateId req =
     (if (case route_id req of
            None \<Rightarrow> True
          | Some s \<Rightarrow> str_to_number s = NaN \<or> num_le (str_parseInt None s) (Num 0))
      then Some \<lparr>statusCode = 400,
                 json = JObj [(''status'', JBool False), (''statusCode'', JNum 400),
                              (''message'', JStr ''Invalid ID format'')]\<rparr>
      else None)"

section \<open>What the route handlers share\<close>

text \<open>
  \<open>send\<close> is \<^verbatim>\<open>res.status(code).json(payload)\<close> inside a handler. \<open>try_catch\<close> is the
  \<^verbatim>\<open>try { ... } catch (error) { res.status(500).json(response.error(msg, 500)) }\<close>
  around every handler body: a body that throws (\<open>None\<close>) is answered with 500, and
  what it did to the state before throwing stays done.
\<close>

definition send :: "nat \<Rightarrow> jsval \<times> state \<Rightarrow> response option \<times> state" where
  "send code r = (Some \<lparr>statusCode = code, json = fst r\<rparr>, snd r)"

definition try_catch :: "string \<Rightarrow> (state \<Rightarrow> response option \<times> state) \<Rightarrow> state \<Rightarrow> response \<times> state" where
  "try_catch msg handler st =
     (case handler st of
        (Some r, st1) \<Rightarrow> (r, st1)
      | (None, st1) \<Rightarrow> (let (e, st2) = error msg 500 None st1 in (\<lparr>statusCode = 500, json = e\<rparr>, st2)))"

text \<open>A middleware in front of a handler.\<close>

definition guard :: "response option \<Rightarrow> (state \<Rightarrow> response \<times> state) \<Rightarrow> state \<Rightarrow> response \<times> state" where
  "guard verdict handler st = (case verdict of Some r \<Rightarrow> (r, st) | None \<Rightarrow> handler st)"

text \<open>
  The application's last middleware answers an exception that no handler caught. The
  only such exceptions are the TypeErrors of \<open>to_str\<close>, whose message is fixed.
\<close>

definition error_handler :: "state \<Rightarrow> response \<times> state" where
  "error_handler st =
     (let (timestamp, st1) = new_Date_toISOString st in
      (\<lparr>statusCode = 500,
        json = JObj (spread (if production st then None
                             else Some (JObj [(''details'', JStr (stack_trace st))]))
                    [(''error'', JStr ''Cannot convert object to primitive value''),
                     (''statusCode'', JNum 500),
                     (''timestamp'', timestamp)])\<rparr>,
       st1))"

definition guard_throwing :: "response option option \<Rightarrow> (state \<Rightarrow> response \<times> state) \<Rightarrow> state \<Rightarrow> response \<times> state" where
  "guard_throwing verdict handler st =
     (case verdict of None \<Rightarrow> error_handler st | Some v \<Rightarrow> guard v handler st)"

text \<open>
  \<^verbatim>\<open>parseInt(req.query.page, 10) || 1\<close> and its like: a number other than 0 and
  \<^verbatim>\<open>NaN\<close>.
\<close>

definition query_int :: "request \<Rightarrow> string \<Rightarrow> rat \<Rightarrow> jsnum option" where
  "query_int req k d = map_option (\<lambda>n. num_or n (Num d)) (parseInt10 (map_of (query req) k))"

text \<open>
  \<^verbatim>\<open>xs.slice(start, end)\<close> on an array or a string: an index is truncated to an
  integer (\<^verbatim>\<open>NaN\<close> to 0), a negative index counts from the end, and both are
  clamped to the length.
\<close>

definition slice_index :: "nat \<Rightarrow> jsnum \<Rightarrow> nat" where
  "slice_index len i =
     (case i of
        NaN \<Rightarrow> 0
      | NegInf \<Rightarrow> 0
      | PosInf \<Rightarrow> len
      | Num r \<Rightarrow>
          (let t = (if r < 0 then \<lceil>r\<rceil> else \<lfloor>r\<rfloor>)
           in if t < 0 then nat (int len + t) else min (nat t) len))"

definition js_slice :: "'a list \<Rightarrow> jsnum \<Rightarrow> jsnum \<Rightarrow> 'a list" where
  "js_slice xs start end' =
     (let k = slice_index (length xs) start; final = slice_index (length xs) end'
      in take (final - k) (drop k xs))"

text \<open>
  The end of the three list routes: \<^verbatim>\<open>total = xs.length\<close>,
  \<^verbatim>\<open>xs.slice(start, start + limit)\<close> and \<open>paginated\<close>. Whatever \<open>xs\<close> has become by
  then is an array, or still the parsed file when no filter was applied; of the values
  that are not arrays only a string has a \<^verbatim>\<open>slice\<close> method.
\<close>

definition send_page :: "jsval \<Rightarrow> jsnum \<Rightarrow> jsnum \<Rightarrow> state \<Rightarrow> response option \<times> state" where
  "send_page xs page limit st =
     (let start = num_mul (num_sub page (Num 1)) limit; end' = num_add start limit in
      case xs of
        JArr ys \<Rightarrow> send 200 (paginated (JArr (js_slice ys start end')) page limit (length ys) st)
      | JStr cs \<Rightarrow> send 200 (paginated (JStr (js_slice cs start end')) page limit (length cs) st)
      | _ \<Rightarrow> (None, st))"

text \<open>\<^verbatim>\<open>v.toLowerCase()\<close> is a method of strings only.\<close>

definition lower_of :: "jsval option \<Rightarrow> string option" where
  "lower_of v = (case v of Some (JStr s) \<Rightarrow> Some (toLowerCase s) | _ \<Rightarrow> None)"

text \<open>
  \<^verbatim>\<open>xs.sort(compare)\<close> is stable; with a comparator that orders by a key the result
  is the stable sort by that key. \<open>after a b\<close> says that the comparator puts \<open>a\<close>
  behind \<open>b\<close>. The comparator is not called on fewer than two elements.
\<close>

fun insert_sorted :: "('k \<Rightarrow> 'k \<Rightarrow> bool) \<Rightarrow> 'k \<times> 'a \<Rightarrow> ('k \<times> 'a) list \<Rightarrow> ('k \<times> 'a) list" where
  "insert_sorted after x [] = [x]"
| "insert_sorted after x (y # ys) =
     (if after (fst x) (fst y) then y # insert_sorted after x ys else x # y # ys)"

definition js_sort :: "('a \<Rightarrow> 'k option) \<Rightarrow> ('k \<Rightarrow> 'k \<Rightarrow> bool) \<Rightarrow> 'a list \<Rightarrow> 'a list option" where
  "js_sort key after xs =
     (if length xs < 2 then Some xs
      else map_option (\<lambda>ks. map snd (foldr (insert_sorted after) (zip ks xs) [])) (js_map key xs))"

text \<open>The three handlers every resource has in the same form.\<close>

definition fetch_by_id :: "string \<Rightarrow> string \<Rightarrow> string \<Rightarrow> string \<Rightarrow> request \<Rightarrow> state \<Rightarrow> response \<times> state" where
  "fetch_by_id FILENAME not_found fetched failed req st =
     guard (validateId req)
       (try_catch failed (\<lambda>st.
          case getById FILENAME (param req ''id'') st of
            (None, st1) \<Rightarrow> (None, st1)
          | (Some found, st1) \<Rightarrow>
              if \<not> truthy (Some found) then send 404 (error not_found 404 None st1)
              else send 200 (success (Some found) fetched 200 st1))) st"

definition patch_by_id :: "string \<Rightarrow> string \<Rightarrow> string \<Rightarrow> request \<Rightarrow> state \<Rightarrow> response option \<times> state" where
  "patch_by_id FILENAME not_found patched req st =
     (case getById FILENAME (param req ''id'') st of
        (None, st1) \<Rightarrow> (None, st1)
      | (Some found, st1) \<Rightarrow>
          if \<not> truthy (Some found) then send 404 (error not_found 404 None st1)
          else (case update FILENAME (param req ''id'') (Some (body req)) st1 of
                  (None, st2) \<Rightarrow> (None, st2)
                | (Some updated, st2) \<Rightarrow> send 200 (success (Some updated) patched 200 st2)))"

definition delete_by_id :: "string \<Rightarrow> string \<Rightarrow> string \<Rightarrow> string \<Rightarrow> request \<Rightarrow> state \<Rightarrow> response \<times> state" where
  "delete_by_id FILENAME not_found deleted failed req st =
     guard (validateId req)
       (try_catch failed (\<lambda>st.
          case getById FILENAME (param req ''id'') st of
            (None, st1) \<Rightarrow> (None, st1)
          | (Some found, st1) \<Rightarrow>
              if \<not> truthy (Some found) then send 404 (error not_found 404 None st1)
              else (case deleteRecord FILENAME (param req ''id'') st1 of
                      (None, st2) \<Rightarrow> (None, st2)
                    | (Some _, st2) \<Rightarrow> send 200 (success (Some JNull) deleted 200 st2)))) st"

section \<open>routes/productRoutes.js\<close>

definition products_FILENAME :: string where
  "products_FILENAME = ''products.json''"

text \<open>\<^verbatim>\<open>parseFloat(p.price) || 0\<close>, the key of the price filter and of the price sorts.\<close>

definition price_of :: "jsval \<Rightarrow> jsnum option" where
  "price_of p =
     (case get_prop (Some p) ''price'' of
        None \<Rightarrow> None
      | Some v \<Rightarrow> map_option (\<lambda>n. num_or n (Num 0)) (parseFloat v))"

text \<open>\<^verbatim>\<open>String(a.name || '')\<close>, the key of the sort by name.\<close>

definition name_of :: "jsval \<Rightarrow> string option" where
  "name_of a =
     (case get_prop (Some a) ''name'' of
        None \<Rightarrow> None
      | Some v \<Rightarrow> to_string (or_else v (Some (JStr []))))"

definition category_is :: "string \<Rightarrow> jsval \<Rightarrow> bool option" where
  "category_is cat p =
     (case get_prop (Some p) ''category'' of
        None \<Rightarrow> None
      | Some v \<Rightarrow> map_option (\<lambda>s. s = cat) (lower_of (or_else v (Some (JStr [])))))"

definition price_between :: "jsnum \<Rightarrow> jsnum \<Rightarrow> jsval \<Rightarrow> bool option" where
  "price_between lo hi p = map_option (\<lambda>price. num_le lo price \<and> num_le price hi) (price_of p)"

text \<open>GET /api/products: the filters and the sort, from the parsed file to the sorted list.\<close>

definition products_filtered :: "request \<Rightarrow> jsval \<Rightarrow> jsval option" where
  "products_filtered req products =
     (let category = map_of (query req) ''category'';
          minPrice = map_of (query req) ''minPrice'';
          maxPrice = map_of (query req) ''maxPrice''
      in case (if truthy category
               then (case to_string category of
                       None \<Rightarrow> None
                     | Some c \<Rightarrow>
                         (case as_array products of
                            None \<Rightarrow> None
                          | Some xs \<Rightarrow> map_option JArr (js_filter (category_is (toLowerCase c)) xs)))
               else Some products) of
           None \<Rightarrow> None
         | Some products1 \<Rightarrow>
             if truthy minPrice \<or> truthy maxPrice
             then (case (if truthy minPrice then parseFloat minPrice else Some (Num 0)) of
                     None \<Rightarrow> None
                   | Some lo \<Rightarrow>
                       (case (if truthy maxPrice then parseFloat maxPrice else Some PosInf) of
                          None \<Rightarrow> None
                        | Some hi \<Rightarrow>
                            (case as_array products1 of
                               None \<Rightarrow> None
                             | Some xs \<Rightarrow> map_option JArr (js_filter (price_between lo hi) xs))))
             else Some products1)"

definition products_sorted :: "(string \<Rightarrow> string \<Rightarrow> int) \<Rightarrow> request \<Rightarrow> jsval \<Rightarrow> jsval option" where
  "products_sorted compare req products =
     (let sort = (case map_of (query req) ''sort'' of None \<Rightarrow> Some (JStr ''name'') | Some v \<Rightarrow> Some v)
      in case as_array products of
           None \<Rightarrow> None
         | Some xs \<Rightarrow>
             map_option JArr
               (if strict_eq sort (Some (JStr ''price-asc''))
                then js_sort price_of (\<lambda>a b. num_lt b a) xs
                else if strict_eq sort (Some (JStr ''price-desc''))
                then js_sort price_of (\<lambda>a b. num_lt a b) xs
                else js_sort name_of (\<lambda>a b. compare a b > 0) xs))"

definition products_list :: "request \<Rightarrow> state \<Rightarrow> response \<times> state" where
  "products_list req st =
     try_catch ''Failed to fetch products'' (\<lambda>st.
       case query_int req ''page'' 1 of
         None \<Rightarrow> (None, st)
       | Some page \<Rightarrow>
           (case query_int req ''limit'' 10 of
              None \<Rightarrow> (None, st)
            | Some limit \<Rightarrow>
                (let (data, st1) = getAll products_FILENAME st;
                     products = (if truthy (Some data) then data else JArr [])
                 in case products_filtered req products of
                      None \<Rightarrow> (None, st1)
                    | Some products1 \<Rightarrow>
                        (case products_sorted (localeCompare st1) req products1 of
                           None \<Rightarrow> (None, st1)
                         | Some products2 \<Rightarrow> send_page products2 page limit st1)))) st"

definition products_get :: "request \<Rightarrow> state \<Rightarrow> response \<times> state" where
  "products_get = fetch_by_id products_FILENAME ''Product not found''
                    ''Product fetched successfully'' ''Failed to fetch product''"

text \<open>
  POST /api/products. \<open>or_throw\<close> is \<^verbatim>\<open>a || b\<close> on conditions whose evaluation may
  throw: \<open>b\<close> is evaluated only when \<open>a\<close> is false.
\<close>

definition or_throw :: "bool option \<Rightarrow> bool option \<Rightarrow> bool option" where
  "or_throw a b = (case a of None \<Rightarrow> None | Some True \<Rightarrow> Some True | Some False \<Rightarrow> b)"

definition product_invalid :: "jsval \<Rightarrow> bool option" where
  "product_invalid b =
     or_throw (isNaN (field b ''price''))
    (or_throw (lt_zero (field b ''price''))
    (or_throw (isNaN (field b ''stock''))
              (lt_zero (field b ''stock''))))"

definition new_product :: "jsval \<Rightarrow> jsval option" where
  "new_product b =
     (case parseFloat (field b ''price'') of
        None \<Rightarrow> None
      | Some price \<Rightarrow>
          (case parseInt (field b ''stock'') of
             None \<Rightarrow> None
           | Some stock \<Rightarrow>
               Some (JObj (set_prop ''inStock'' (Some (JBool (num_lt (Num 0) stock)))
                          (set_prop ''image'' (or_else (field b ''image'') (Some (JStr [])))
                          (set_prop ''description'' (or_else (field b ''description'') (Some (JStr [])))
                          (set_prop ''stock'' (Some (of_num stock))
                          (set_prop ''category'' (field b ''category'')
                          (set_prop ''price'' (Some (of_num price))
                          (set_prop ''name'' (field b ''name'') []))))))))))"

definition products_post :: "request \<Rightarrow> state \<Rightarrow> response \<times> state" where
  "products_post req st =
     guard (validateRequired [''name'', ''price'', ''category'', ''stock''] req)
       (try_catch ''Failed to create product'' (\<lambda>st.
          case product_invalid (body req) of
            None \<Rightarrow> (None, st)
          | Some True \<Rightarrow> send 400 (error ''Price and stock must be positive numbers'' 400 None st)
          | Some False \<Rightarrow>
              (case new_product (body req) of
                 None \<Rightarrow> (None, st)
               | Some record \<Rightarrow>
                   (case create products_FILENAME (Some record) st of
                      (None, st1) \<Rightarrow> (None, st1)
                    | (Some newProduct, st1) \<Rightarrow>
                        send 201 (success (Some newProduct) ''Product created successfully'' 201 st1))))) st"

text \<open>PUT /api/products/:id: \<open>product_update\<close> is the \<open>updateData\<close> built from the body.\<close>

definition product_update :: "jsval \<Rightarrow> jsval option" where
  "product_update b =
     (let updateData = spread (Some b) [] in
      case (if map_of updateData ''stock'' \<noteq> None
            then map_option (\<lambda>stock. set_prop ''stock'' (Some (of_num stock))
                                       (set_prop ''inStock'' (Some (JBool (num_lt (Num 0) stock))) updateData))
                   (parseInt (map_of updateData ''stock''))
            else Some updateData) of
        None \<Rightarrow> None
      | Some updateData1 \<Rightarrow>
          if map_of updateData1 ''price'' \<noteq> None
          then map_option (\<lambda>price. JObj (set_prop ''price'' (Some (of_num price)) updateData1))
                 (parseFloat (map_of updateData1 ''price''))
          else Some (JObj updateData1))"

definition products_put :: "request \<Rightarrow> state \<Rightarrow> response \<times> state" where
  "products_put req st =
     guard (validateId req)
       (try_catch ''Failed to update product'' (\<lambda>st.
          case getById products_FILENAME (param req ''id'') st of
            (None, st1) \<Rightarrow> (None, st1)
          | (Some product, st1) \<Rightarrow>
              if \<not> truthy (Some product) then send 404 (error ''Product not found'' 404 None st1)
              else (case product_update (body req) of
                      None \<Rightarrow> (None, st1)
                    | Some updateData \<Rightarrow>
                        (case update products_FILENAME (param req ''id'') (Some updateData) st1 of
                           (None, st2) \<Rightarrow> (None, st2)
                         | (Some updatedProduct, st2) \<Rightarrow>
                             send 200 (success (Some updatedProduct) ''Product updated successfully'' 200 st2))))) st"

definition products_patch :: "request \<Rightarrow> state \<Rightarrow> response \<times> state" where
  "products_patch req st =
     guard (validateId req)
       (try_catch ''Failed to update product''
          (patch_by_id products_FILENAME ''Product not found'' ''Product partially updated''
             req)) st"

definition products_delete :: "request \<Rightarrow> state \<Rightarrow> response \<times> state" where
  "products_delete = delete_by_id products_FILENAME ''Product not found''
                       ''Product deleted successfully'' ''Failed to delete product''"

text \<open>GET /api/products/stock/low.\<close>

definition stock_at_most :: "jsnum \<Rightarrow> jsval \<Rightarrow> bool option" where
  "stock_at_most threshold product =
     (case get_prop (Some product) ''stock'' of
        None \<Rightarrow> None
      | Some v \<Rightarrow>
          map_option (\<lambda>n. num_le (num_or n (Num 0)) threshold) (parseInt10 v))"

definition products_low_stock :: "request \<Rightarrow> state \<Rightarrow> response \<times> state" where
  "products_low_stock req st =
     try_catch ''Failed to fetch low stock products'' (\<lambda>st.
       case query_int req ''threshold'' 5 of
         None \<Rightarrow> (None, st)
       | Some threshold \<Rightarrow>
           (case filter_db products_FILENAME (stock_at_most threshold) st of
              (None, st1) \<Rightarrow> (None, st1)
            | (Some lowStockProducts, st1) \<Rightarrow>
                send 200 (success (Some (JArr lowStockProducts)) ''Low stock products fetched'' 200 st1))) st"

text \<open>GET /api/products/category/:category.\<close>

definition in_category :: "jsval option \<Rightarrow> jsval \<Rightarrow> bool option" where
  "in_category category p =
     (case get_prop (Some p) ''category'' of
        None \<Rightarrow> None
      | Some v \<Rightarrow>
          (case lower_of v of
             None \<Rightarrow> None
           | Some s \<Rightarrow> map_option (\<lambda>t. s = t) (lower_of category)))"

definition products_by_category :: "request \<Rightarrow> state \<Rightarrow> response \<times> state" where
  "products_by_category req st =
     try_catch ''Failed to fetch products by category'' (\<lambda>st.
       case filter_db products_FILENAME (in_category (param req ''category'')) st of
         (None, st1) \<Rightarrow> (None, st1)
       | (Some products, st1) \<Rightarrow>
           if length products = 0
           then send 404 (error ''No products found in this category'' 404 None st1)
           else send 200 (success (Some (JArr products)) ''Products by category fetched'' 200 st1)) st"

section \<open>routes/orderRoutes.js\<close>

definition orders_FILENAME :: string where
  "orders_FILENAME = ''orders.json''"

text \<open>GET /api/orders.\<close>

definition userId_is :: "jsval option \<Rightarrow> jsval \<Rightarrow> bool option" where
  "userId_is userId o' =
     (case get_prop (Some o') ''userId'' of
        None \<Rightarrow> None
      | Some v \<Rightarrow> map_option (eq_num v) (parseInt10 userId))"

definition status_is :: "string \<Rightarrow> jsval \<Rightarrow> bool option" where
  "status_is s o' =
     (case get_prop (Some o') ''status'' of
        None \<Rightarrow> None
      | Some v \<Rightarrow> map_option (\<lambda>t. toLowerCase t = s) (to_string (or_else v (Some (JStr [])))))"

definition orders_filtered :: "request \<Rightarrow> jsval \<Rightarrow> jsval option" where
  "orders_filtered req orders =
     (let userId = map_of (query req) ''userId'';
          status = map_of (query req) ''status''
      in case (if truthy userId
               then (case as_array orders of
                       None \<Rightarrow> None
                     | Some xs \<Rightarrow> map_option JArr (js_filter (userId_is userId) xs))
               else Some orders) of
           None \<Rightarrow> None
         | Some orders1 \<Rightarrow>
             if truthy status
             then (case to_string status of
                     None \<Rightarrow> None
                   | Some s \<Rightarrow>
                       (case as_array orders1 of
                          None \<Rightarrow> None
                        | Some xs \<Rightarrow> map_option JArr (js_filter (status_is (toLowerCase s)) xs)))
             else Some orders1)"

definition orders_list :: "request \<Rightarrow> state \<Rightarrow> response \<times> state" where
  "orders_list req st =
     try_catch ''Failed to fetch orders'' (\<lambda>st.
       case query_int req ''page'' 1 of
         None \<Rightarrow> (None, st)
       | Some page \<Rightarrow>
           (case query_int req ''limit'' 10 of
              None \<Rightarrow> (None, st)
            | Some limit \<Rightarrow>
                (let (data, st1) = getAll orders_FILENAME st;
                     orders = (if truthy (Some data) then data else JArr [])
                 in case orders_filtered req orders of
                      None \<Rightarrow> (None, st1)
                    | Some orders1 \<Rightarrow> send_page orders1 page limit st1))) st"

definition orders_get :: "request \<Rightarrow> state \<Rightarrow> response \<times> state" where
  "orders_get = fetch_by_id orders_FILENAME ''Order not found''
                  ''Order fetched successfully'' ''Failed to fetch order''"

text \<open>
  POST /api/orders. The two inline checks:
  \<^verbatim>\<open>!Array.isArray(items) || items.length === 0\<close> and
  \<^verbatim>\<open>isNaN(totalAmount) || totalAmount <= 0\<close>.
\<close>

definition items_invalid :: "jsval \<Rightarrow> bool" where
  "items_invalid b = (case field b ''items'' of Some (JArr xs) \<Rightarrow> length xs = 0 | _ \<Rightarrow> True)"

definition amount_invalid :: "jsval \<Rightarrow> bool option" where
  "amount_invalid b = or_throw (isNaN (field b ''totalAmount'')) (le_zero (field b ''totalAmount''))"

definition new_order :: "jsval \<Rightarrow> jsval option" where
  "new_order b =
     (case parseInt (field b ''userId'') of
        None \<Rightarrow> None
      | Some userId \<Rightarrow>
          (case parseFloat (field b ''totalAmount'') of
             None \<Rightarrow> None
           | Some totalAmount \<Rightarrow>
               Some (JObj (set_prop ''notes'' (or_else (field b ''notes'') (Some (JStr [])))
                          (set_prop ''shippingAddress'' (or_else (field b ''shippingAddress'') (Some (JStr [])))
                          (set_prop ''paymentMethod'' (or_else (field b ''paymentMethod'') (Some (JStr ''credit-card'')))
                          (set_prop ''status'' (Some (JStr ''pending''))
                          (set_prop ''totalAmount'' (Some (of_num totalAmount))
                          (set_prop ''items'' (field b ''items'')
                          (set_prop ''userId'' (Some (of_num userId)) []))))))))))"

definition orders_post :: "request \<Rightarrow> state \<Rightarrow> response \<times> state" where
  "orders_post req st =
     guard (validateRequired [''userId'', ''items'', ''totalAmount''] req)
       (try_catch ''Failed to create order'' (\<lambda>st.
          if items_invalid (body req)
          then send 400 (error ''Items must be a non-empty array'' 400 None st)
          else (case amount_invalid (body req) of
                  None \<Rightarrow> (None, st)
                | Some True \<Rightarrow> send 400 (error ''Total amount must be a positive number'' 400 None st)
                | Some False \<Rightarrow>
                    (case new_order (body req) of
                       None \<Rightarrow> (None, st)
                     | Some record \<Rightarrow>
                         (case create orders_FILENAME (Some record) st of
                            (None, st1) \<Rightarrow> (None, st1)
                          | (Some newOrder, st1) \<Rightarrow>
                              send 201 (success (Some newOrder) ''Order created successfully'' 201 st1)))))) st"

text \<open>PUT /api/orders/:id.\<close>

definition order_update :: "jsval \<Rightarrow> jsval option" where
  "order_update b =
     (let updateData = spread (Some b) [] in
      if map_of updateData ''totalAmount'' \<noteq> None
      then map_option (\<lambda>totalAmount. JObj (set_prop ''totalAmount'' (Some (of_num totalAmount)) updateData))
             (parseFloat (map_of updateData ''totalAmount''))
      else Some (JObj updateData))"

definition orders_put :: "request \<Rightarrow> state \<Rightarrow> response \<times> state" where
  "orders_put req st =
     guard (validateId req)
       (try_catch ''Failed to update order'' (\<lambda>st.
          case getById orders_FILENAME (param req ''id'') st of
            (None, st1) \<Rightarrow> (None, st1)
          | (Some order, st1) \<Rightarrow>
              if \<not> truthy (Some order) then send 404 (error ''Order not found'' 404 None st1)
              else if truthy (field (body req) ''userId'')
                      \<and> \<not> strict_eq (field (body req) ''userId'') (field order ''userId'')
              then send 400 (error ''Cannot change userId after order creation'' 400 None st1)
              else (case order_update (body req) of
                      None \<Rightarrow> (None, st1)
                    | Some updateData \<Rightarrow>
                        (case update orders_FILENAME (param req ''id'') (Some updateData) st1 of
                           (None, st2) \<Rightarrow> (None, st2)
                         | (Some updatedOrder, st2) \<Rightarrow>
                             send 200 (success (Some updatedOrder) ''Order updated successfully'' 200 st2))))) st"

text \<open>PATCH /api/orders/:id.\<close>

definition validStatuses :: "string list" where
  "validStatuses = [''pending'', ''confirmed'', ''shipped'', ''delivered'', ''cancelled'']"

definition status_invalid :: "jsval \<Rightarrow> bool option" where
  "status_invalid b =
     (if truthy (field b ''status'')
      then map_option (\<lambda>s. s \<notin> set validStatuses) (lower_of (field b ''status''))
      else Some False)"

definition orders_patch :: "request \<Rightarrow> state \<Rightarrow> response \<times> state" where
  "orders_patch req st =
     guard (validateId req)
       (try_catch ''Failed to update order'' (\<lambda>st.
          case getById orders_FILENAME (param req ''id'') st of
            (None, st1) \<Rightarrow> (None, st1)
          | (Some order, st1) \<Rightarrow>
              if \<not> truthy (Some order) then send 404 (error ''Order not found'' 404 None st1)
              else (case status_invalid (body req) of
                      None \<Rightarrow> (None, st1)
                    | Some True \<Rightarrow>
                        send 400 (error (''Invalid status. Must be one of: '' @ join '', '' validStatuses)
                                    400 None st1)
                    | Some False \<Rightarrow>
                        (case update orders_FILENAME (param req ''id'') (Some (body req)) st1 of
                           (None, st2) \<Rightarrow> (None, st2)
                         | (Some updatedOrder, st2) \<Rightarrow>
                             send 200 (success (Some updatedOrder) ''Order partially updated'' 200 st2))))) st"

definition orders_delete :: "request \<Rightarrow> state \<Rightarrow> response \<times> state" where
  "orders_delete = delete_by_id orders_FILENAME ''Order not found''
                     ''Order deleted successfully'' ''Failed to delete order''"

text \<open>GET /api/orders/user/:userId and GET /api/orders/status/:status.\<close>

definition placed_by :: "jsval option \<Rightarrow> jsval \<Rightarrow> bool option" where
  "placed_by userId o' =
     (case get_prop (Some o') ''userId'' of
        None \<Rightarrow> None
      | Some v \<Rightarrow> map_option (eq_num v) (parseInt userId))"

definition orders_by_user :: "request \<Rightarrow> state \<Rightarrow> response \<times> state" where
  "orders_by_user req st =
     guard (validateId req)
       (try_catch ''Failed to fetch user orders'' (\<lambda>st.
          case filter_db orders_FILENAME (placed_by (param req ''userId'')) st of
            (None, st1) \<Rightarrow> (None, st1)
          | (Some userOrders, st1) \<Rightarrow>
              if length userOrders = 0
              then send 404 (error ''No orders found for this user'' 404 None st1)
              else send 200 (success (Some (JArr userOrders)) ''User orders fetched'' 200 st1))) st"

definition has_status :: "jsval option \<Rightarrow> jsval \<Rightarrow> bool option" where
  "has_status status o' =
     (case get_prop (Some o') ''status'' of
        None \<Rightarrow> None
      | Some v \<Rightarrow>
          (case lower_of v of
             None \<Rightarrow> None
           | Some s \<Rightarrow> map_option (\<lambda>t. s = t) (lower_of status)))"

definition orders_by_status :: "request \<Rightarrow> state \<Rightarrow> response \<times> state" where
  "orders_by_status req st =
     try_catch ''Failed to fetch orders by status'' (\<lambda>st.
       case filter_db orders_FILENAME (has_status (param req ''status'')) st of
         (None, st1) \<Rightarrow> (None, st1)
       | (Some orders, st1) \<Rightarrow>
           if length orders = 0
           then send 404 (error ''No orders found with this status'' 404 None st1)
           else (case to_string (param req ''status'') of
                   None \<Rightarrow> (None, st1)
                 | Some s \<Rightarrow>
                     send 200 (success (Some (JArr orders))
                                 (''Orders with status '' @ [CHR 0x27] @ s @ [CHR 0x27] @ '' fetched'') 200 st1))) st"

text \<open>POST /api/orders/:id/cancel.\<close>

definition orders_cancel :: "request \<Rightarrow> state \<Rightarrow> response \<times> state" where
  "orders_cancel req st =
     guard (validateId req)
       (try_catch ''Failed to cancel order'' (\<lambda>st.
          case getById orders_FILENAME (param req ''id'') st of
            (None, st1) \<Rightarrow> (None, st1)
          | (Some order, st1) \<Rightarrow>
              if \<not> truthy (Some order) then send 404 (error ''Order not found'' 404 None st1)
              else if \<not> strict_eq (field order ''status'') (Some (JStr ''pending''))
              then send 400 (error ''Only pending orders can be cancelled'' 400 None st1)
              else (case update orders_FILENAME (param req ''id'')
                           (Some (JObj [(''status'', JStr ''cancelled'')])) st1 of
                      (None, st2) \<Rightarrow> (None, st2)
                    | (Some updatedOrder, st2) \<Rightarrow>
                        send 200 (success (Some updatedOrder) ''Order cancelled successfully'' 200 st2)))) st"

section \<open>routes/userRoutes.js\<close>

definition users_FILENAME :: string where
  "users_FILENAME = ''users.json''"

text \<open>GET /api/users: \<^verbatim>\<open>(user.name || '').toLowerCase().includes(q) || ...\<close>.\<close>

definition field_has :: "string \<Rightarrow> string \<Rightarrow> jsval \<Rightarrow> bool option" where
  "field_has fld q user =
     (case get_prop (Some user) fld of
        None \<Rightarrow> None
      | Some v \<Rightarrow> map_option (\<lambda>s. str_includes s q) (lower_of (or_else v (Some (JStr [])))))"

definition user_matches :: "string \<Rightarrow> jsval \<Rightarrow> bool option" where
  "user_matches q user = or_throw (field_has ''name'' q user) (field_has ''email'' q user)"

definition users_filtered :: "request \<Rightarrow> jsval \<Rightarrow> jsval option" where
  "users_filtered req users =
     (let searchQuery = map_of (query req) ''search'' in
      if truthy searchQuery
      then (case to_string searchQuery of
              None \<Rightarrow> None
            | Some q \<Rightarrow>
                (case as_array users of
                   None \<Rightarrow> None
                 | Some xs \<Rightarrow> map_option JArr (js_filter (user_matches (toLowerCase q)) xs)))
      else Some users)"

definition users_list :: "request \<Rightarrow> state \<Rightarrow> response \<times> state" where
  "users_list req st =
     try_catch ''Failed to fetch users'' (\<lambda>st.
       case query_int req ''page'' 1 of
         None \<Rightarrow> (None, st)
       | Some page \<Rightarrow>
           (case query_int req ''limit'' 10 of
              None \<Rightarrow> (None, st)
            | Some limit \<Rightarrow>
                (let (data, st1) = getAll users_FILENAME st;
                     users = (if truthy (Some data) then data else JArr [])
                 in case users_filtered req users of
                      None \<Rightarrow> (None, st1)
                    | Some users1 \<Rightarrow> send_page users1 page limit st1))) st"

definition users_get :: "request \<Rightarrow> state \<Rightarrow> response \<times> state" where
  "users_get = fetch_by_id users_FILENAME ''User not found''
                 ''User fetched successfully'' ''Failed to fetch user''"

text \<open>POST /api/users.\<close>

definition new_user :: "jsval \<Rightarrow> jsval" where
  "new_user b =
     JObj (set_prop ''isActive'' (Some (JBool True))
          (set_prop ''country'' (or_else (field b ''country'') (Some (JStr [])))
          (set_prop ''city'' (or_else (field b ''city'') (Some (JStr [])))
          (set_prop ''address'' (or_else (field b ''address'') (Some (JStr [])))
          (set_prop ''phone'' (field b ''phone'')
          (set_prop ''email'' (field b ''email'')
          (set_prop ''name'' (field b ''name'') [])))))))"

definition users_post :: "request \<Rightarrow> state \<Rightarrow> response \<times> state" where
  "users_post req st =
     guard (validateRequired [''name'', ''email'', ''phone''] req)
       (guard_throwing (validateEmail req)
         (guard_throwing (validatePhone req)
           (try_catch ''Failed to create user'' (\<lambda>st.
              case search users_FILENAME ''email'' (field (body req) ''email'') st of
                (None, st1) \<Rightarrow> (None, st1)
              | (Some existingUser, st1) \<Rightarrow>
                  if length existingUser > 0
                  then send 409 (error ''Email already exists'' 409 None st1)
                  else (case create users_FILENAME (Some (new_user (body req))) st1 of
                          (None, st2) \<Rightarrow> (None, st2)
                        | (Some newUser, st2) \<Rightarrow>
                            send 201 (success (Some newUser) ''User created successfully'' 201 st2)))))) st"

text \<open>PUT /api/users/:id.\<close>

definition users_put :: "request \<Rightarrow> state \<Rightarrow> response \<times> state" where
  "users_put req st =
     guard (validateId req)
       (guard_throwing (validateEmail req)
         (guard_throwing (validatePhone req)
           (try_catch ''Failed to update user'' (\<lambda>st.
              case getById users_FILENAME (param req ''id'') st of
                (None, st1) \<Rightarrow> (None, st1)
              | (Some user, st1) \<Rightarrow>
                  if \<not> truthy (Some user) then send 404 (error ''User not found'' 404 None st1)
                  else (case (if truthy (field (body req) ''email'')
                                 \<and> \<not> strict_eq (field (body req) ''email'') (field user ''email'')
                              then (case search users_FILENAME ''email'' (field (body req) ''email'') st1 of
                                      (None, st2) \<Rightarrow> (None, st2)
                                    | (Some existingUser, st2) \<Rightarrow> (Some (length existingUser > 0), st2))
                              else (Some False, st1)) of
                          (None, st2) \<Rightarrow> (None, st2)
                        | (Some True, st2) \<Rightarrow> send 409 (error ''Email already exists'' 409 None st2)
                        | (Some False, st2) \<Rightarrow>
                            (case update users_FILENAME (param req ''id'') (Some (body req)) st2 of
                               (None, st3) \<Rightarrow> (None, st3)
                             | (Some updatedUser, st3) \<Rightarrow>
                                 send 200 (success (Some updatedUser) ''User updated successfully'' 200 st3))))))) st"

definition users_patch :: "request \<Rightarrow> state \<Rightarrow> response \<times> state" where
  "users_patch req st =
     guard (validateId req)
       (try_catch ''Failed to update user''
          (patch_by_id users_FILENAME ''User not found'' ''User partially updated'' req)) st"

definition users_delete :: "request \<Rightarrow> state \<Rightarrow> response \<times> state" where
  "users_delete = delete_by_id users_FILENAME ''User not found''
                    ''User deleted successfully'' ''Failed to delete user''"

text \<open>GET /api/users/filter/active.\<close>

definition is_active :: "jsval \<Rightarrow> bool option" where
  "is_active user =
     map_option (\<lambda>v. strict_eq v (Some (JBool True))) (get_prop (Some user) ''isActive'')"

definition users_active :: "request \<Rightarrow> state \<Rightarrow> response \<times> state" where
  "users_active req st =
     try_catch ''Failed to fetch active users'' (\<lambda>st.
       case filter_db users_FILENAME is_active st of
         (None, st1) \<Rightarrow> (None, st1)
       | (Some activeUsers, st1) \<Rightarrow>
           send 200 (success (Some (JArr activeUsers)) ''Active users fetched'' 200 st1)) st"

section \<open>server.js\<close>

text \<open>
  Routing. Express compares the fixed parts of a path without regard to case and ignores
  a trailing slash; a \<^verbatim>\<open>:name\<close> part matches one segment, which becomes the route
  parameter. Routes are tried in the order the routers register them. Only the five
  methods the routers register are requests of the model.
\<close>

definition seg :: "string \<Rightarrow> string \<Rightarrow> bool" where
  "seg name s = (toLowerCase s = name)"

definition with_param :: "request \<Rightarrow> string \<Rightarrow> string \<Rightarrow> request" where
  "with_param req name s = req\<lparr>params := [(name, s)]\<rparr>"

definition not_found :: "request \<Rightarrow> state \<Rightarrow> response \<times> state" where
  "not_found req st =
     (let p = ''/'' @ join ''/'' (path req);
          m = (case http_method req of GET \<Rightarrow> ''GET'' | POST \<Rightarrow> ''POST'' | PUT \<Rightarrow> ''PUT''
               | PATCH \<Rightarrow> ''PATCH'' | DELETE \<Rightarrow> ''DELETE'')
      in (\<lparr>statusCode = 404,
           json = JObj [(''error'', JStr ''Route not found''), (''path'', JStr p),
                        (''message'', JStr (m @ '' '' @ p @ '' - Endpoint does not exist''))]\<rparr>,
          st))"

definition health :: "request \<Rightarrow> state \<Rightarrow> response \<times> state" where
  "health req st =
     (let (timestamp, st1) = new_Date_toISOString st in
      (\<lparr>statusCode = 200,
        json = JObj [(''status'', JStr ''Server is running''), (''timestamp'', timestamp)]\<rparr>,
       st1))"

definition productRoutes :: "string list \<Rightarrow> request \<Rightarrow> state \<Rightarrow> response \<times> state" where
  "productRoutes rest req =
     (case (http_method req, rest) of
        (GET, []) \<Rightarrow> products_list req
      | (GET, [i]) \<Rightarrow> products_get (with_param req ''id'' i)
      | (POST, []) \<Rightarrow> products_post req
      | (PUT, [i]) \<Rightarrow> products_put (with_param req ''id'' i)
      | (PATCH, [i]) \<Rightarrow> products_patch (with_param req ''id'' i)
      | (DELETE, [i]) \<Rightarrow> products_delete (with_param req ''id'' i)
      | (GET, [a, b]) \<Rightarrow>
          if seg ''stock'' a \<and> seg ''low'' b then products_low_stock req
          else if seg ''category'' a then products_by_category (with_param req ''category'' b)
          else not_found req
      | _ \<Rightarrow> not_found req)"

definition orderRoutes :: "string list \<Rightarrow> request \<Rightarrow> state \<Rightarrow> response \<times> state" where
  "orderRoutes rest req =
     (case (http_method req, rest) of
        (GET, []) \<Rightarrow> orders_list req
      | (GET, [i]) \<Rightarrow> orders_get (with_param req ''id'' i)
      | (POST, []) \<Rightarrow> orders_post req
      | (PUT, [i]) \<Rightarrow> orders_put (with_param req ''id'' i)
      | (PATCH, [i]) \<Rightarrow> orders_patch (with_param req ''id'' i)
      | (DELETE, [i]) \<Rightarrow> orders_delete (with_param req ''id'' i)
      | (GET, [a, b]) \<Rightarrow>
          if seg ''user'' a then orders_by_user (with_param req ''userId'' b)
          else if seg ''status'' a then orders_by_status (with_param req ''status'' b)
          else not_found req
      | (POST, [i, c]) \<Rightarrow>
          if seg ''cancel'' c then orders_cancel (with_param req ''id'' i) else not_found req
      | _ \<Rightarrow> not_found req)"

definition userRoutes :: "string list \<Rightarrow> request \<Rightarrow> state \<Rightarrow> response \<times> state" where
  "userRoutes rest req =
     (case (http_method req, rest) of
        (GET, []) \<Rightarrow> users_list req
      | (GET, [i]) \<Rightarrow> users_get (with_param req ''id'' i)
      | (POST, []) \<Rightarrow> users_post req
      | (PUT, [i]) \<Rightarrow> users_put (with_param req ''id'' i)
      | (PATCH, [i]) \<Rightarrow> users_patch (with_param req ''id'' i)
      | (DELETE, [i]) \<Rightarrow> users_delete (with_param req ''id'' i)
      | (GET, [a, b]) \<Rightarrow>
          if seg ''filter'' a \<and> seg ''active'' b then users_active req else not_found req
      | _ \<Rightarrow> not_found req)"

definition app :: "request \<Rightarrow> state \<Rightarrow> response \<times> state" where
  "app req =
     (case path req of
        [h] \<Rightarrow> if http_method req = GET \<and> seg ''health'' h then health req else not_found req
      | a # r # rest \<Rightarrow>
          if seg ''api'' a \<and> seg ''users'' r then userRoutes rest req
          else if seg ''api'' a \<and> seg ''products'' r then productRoutes rest req
          else if seg ''api'' a \<and> seg ''orders'' r then orderRoutes rest req
          else not_found req
      | _ \<Rightarrow> not_found req)"

section \<open>Auxiliary notions for the properties\<close>

text \<open>
  \<open>parsed st f\<close> is what \<open>readFile\<close> returns for the file \<open>f\<close>; \<open>new_record\<close> and
  \<open>merged_record\<close> name the objects that \<open>create\<close> and \<open>update\<close> build.
\<close>

definition parsed :: "state \<Rightarrow> string \<Rightarrow> jsval" where
  "parsed st f = fst (readFile f st)"

definition new_record :: "jsval option \<Rightarrow> jsnum \<Rightarrow> state \<Rightarrow> jsval" where
  "new_record newRecord n st =
     JObj (set_prop ''updatedAt'' (Some (JStr (clock st (Suc (ticks st)))))
          (set_prop ''createdAt'' (Some (JStr (clock st (ticks st))))
          (spread newRecord (set_prop ''id'' (Some (of_num n)) []))))"

definition merged_record :: "jsval \<Rightarrow> jsval option \<Rightarrow> state \<Rightarrow> jsval" where
  "merged_record old updateData st =
     JObj (set_prop ''updatedAt'' (Some (JStr (clock st (ticks st))))
          (set_prop ''createdAt'' (field old ''createdAt'')
          (set_prop ''id'' (field old ''id'')
          (spread updateData (spread (Some old) [])))))"

text \<open>A small db directory and a few requests, to run the program on.\<close>

definition example_order :: jsval where
  "example_order =
     JObj [(''id'', JNum 1), (''userId'', JNum 7), (''items'', JArr [JStr ''pen'']),
           (''totalAmount'', JNum 20), (''status'', JStr ''pending''),
           (''createdAt'', JStr ''T'')]"

definition example_product :: jsval where
  "example_product =
     JObj [(''id'', JNum 4), (''name'', JStr ''Laptop''), (''price'', JNum 999),
           (''category'', JStr ''electronics''), (''stock'', JNum 50)]"

definition example_files :: "string \<Rightarrow> db_file" where
  "example_files f =
     (if f = ''orders.json'' then Text (Encodes (JArr [example_order]))
      else if f = ''products.json'' then Text (Encodes (JArr [example_product]))
      else if f = ''empty.json'' then Text Blank
      else if f = ''broken.json'' then Text Invalid
      else if f = ''locked.json'' then Unreadable
      else Missing)"

definition example_state :: state where
  "example_state =
     \<lparr>files = example_files, unwritable = (\<lambda>f. f = ''locked.json''), io = [],
      clock = (\<lambda>k. replicate k CHR ''I''), ticks = 0, localeCompare = (\<lambda>a b. 0),
      production = False, stack_trace = []\<rparr>"

definition example_request :: "http_method \<Rightarrow> string list \<Rightarrow> jsval \<Rightarrow> request" where
  "example_request m p b =
     \<lparr>http_method = m, path = p, params = [], query = [], body = b, headers = []\<rparr>"

definition example_state2 :: state where
  "example_state2 =
     example_state\<lparr>files := (files example_state)(''products.json'' := Missing),
                    io := [Read ''users.json'']\<rparr>"

definition example_product_body :: jsval where
  "example_product_body =
     JObj [(''name'', JStr ''Mouse''), (''price'', JNum 25), (''category'', JStr ''electronics''),
           (''stock'', JStr ''3'')]"

definition example_no_name :: jsval where
  "example_no_name =
     JObj [(''name'', JStr []), (''price'', JNum 25), (''category'', JStr ''electronics''),
           (''stock'', JNum 3)]"

definition example_bad_price :: jsval where
  "example_bad_price =
     JObj [(''name'', JStr ''Mouse''), (''price'', JStr ''cheap''),
           (''category'', JStr ''electronics''), (''stock'', JNum 3)]"

definition example_bad_order :: jsval where
  "example_bad_order =
     JObj [(''userId'', JNum 7), (''items'', JArr []), (''totalAmount'', JNum (- 3))]"



text \<open>
  \<open>id_number x\<close> is the number that \<open>create\<close> takes for the id of a stored record \<open>x\<close>:
  \<^verbatim>\<open>x.id || 0\<close> as \<^verbatim>\<open>Math.max\<close> converts it. A safe integer is an integer of magnitude
  below \<open>2^53\<close>, so that adding 1 to it is exact.
\<close>

definition id_number :: "jsval \<Rightarrow> jsnum option" where
  "id_number x = to_number (or_else (field x ''id'') (Some (JNum 0)))"









definition is_record :: "jsval \<Rightarrow> bool" where
  "is_record x = (case x of JObj kvs \<Rightarrow> distinct (map fst kvs) | _ \<Rightarrow> False)"

definition first_with_id :: "jsnum \<Rightarrow> jsval list \<Rightarrow> nat \<Rightarrow> bool" where
  "first_with_id n xs k =
     (k < length xs \<and> eq_num (field (xs ! k) ''id'') n
      \<and> (\<forall>j<k. \<not> eq_num (field (xs ! j) ''id'') n))"



text \<open>
  \<open>id_converts x\<close>: the element \<open>x\<close> of a stored array is not \<^verbatim>\<open>null\<close> and the
  conversion of \<^verbatim>\<open>x.id || 0\<close> to a number does not throw.
\<close>

definition id_converts :: "jsval \<Rightarrow> bool" where
  "id_converts x = (x \<noteq> JNull \<and> id_number x \<noteq> None)"

text \<open>More states and request bodies to run the program on.\<close>

definition example_object_file :: state where
  "example_object_file = example_state\<lparr>files := (\<lambda>f. Text (Encodes (JObj [])))\<rparr>"




definition example_true_price :: jsval where
  "example_true_price =
     JObj [(''name'', JStr ''Mouse''), (''price'', JBool True), (''category'', JStr ''electronics''),
           (''stock'', JNum 3)]"

definition example_throwing_price :: jsval where
  "example_throwing_price =
     JObj [(''name'', JStr ''Mouse''), (''price'', JObj [(''toString'', JNum 1)]),
           (''category'', JStr ''electronics''), (''stock'', JNum (- 1))]"

section \<open>Properties of the database layer\<close>

lemma readFile_eq: "readFile f st = (parsed st f, st\<lparr>io := io st @ [Read f]\<rparr>)"
  by (simp add: readFile_def parsed_def)

lemma parsed_eq:
  "parsed st f = (case files st f of Text (Encodes v) \<Rightarrow> v | _ \<Rightarrow> JArr [])"
  by (simp add: parsed_def readFile_def readFile_try_def fs_existsSync_def fs_readFileSync_def
      JSON_parse_def split: db_file.splits file_text.splits)

lemma writeFile_eq:
  "writeFile f d st =
     (\<not> unwritable st f,
      st\<lparr>files := (if unwritable st f then files st else (files st)(f := Text (Encodes d))),
         io := io st @ [Write f d]\<rparr>)"
  by (simp add: writeFile_def writeFile_try_def fs_writeFileSync_def JSON_stringify_def)

lemma date_eq:
  "new_Date_toISOString st = (JStr (clock st (ticks st)), st\<lparr>ticks := Suc (ticks st)\<rparr>)"
  by (simp add: new_Date_toISOString_def)

lemma parsed_upd [simp]:
  "parsed (st\<lparr>io := x\<rparr>) f = parsed st f"
  "parsed (st\<lparr>ticks := y\<rparr>) f = parsed st f"
  by (simp_all add: parsed_eq)

text \<open>
  C2. File I/O failure never leaves the database layer. \<open>readFile\<close> returns the empty
  array when the file does not exist, when reading it raises, when its text is empty and
  when \<^verbatim>\<open>JSON.parse\<close> raises (in general: whenever the body of its \<^verbatim>\<open>try\<close> throws),
  and the parsed contents otherwise; it changes no file. \<open>writeFile\<close> returns true when
  \<^verbatim>\<open>fs.writeFileSync\<close> has written the serialised data and false when it raises, the
  files then being as before. Both are total: their results are plain values, not results
  that may be an exception.
\<close>

theorem io_failure_absorbed:
  "(\<not> fs_existsSync st f \<longrightarrow> fst (readFile f st) = JArr [])
 \<and> (fs_readFileSync st f = None \<longrightarrow> fst (readFile f st) = JArr [])
 \<and> (fs_readFileSync st f = Some Blank \<longrightarrow> fst (readFile f st) = JArr [])
 \<and> (\<forall>t. fs_readFileSync st f = Some t \<and> JSON_parse t = None \<longrightarrow> fst (readFile f st) = JArr [])
 \<and> (\<forall>t v. fs_existsSync st f \<and> fs_readFileSync st f = Some t \<and> t \<noteq> Blank \<and> JSON_parse t = Some v
        \<longrightarrow> fst (readFile f st) = v)
 \<and> (readFile_try f st = None \<longrightarrow> fst (readFile f st) = JArr [])
 \<and> files (snd (readFile f st)) = files st
 \<and> (\<forall>st1. writeFile_try f d st = Some st1
        \<longrightarrow> fst (writeFile f d st) \<and> files (snd (writeFile f d st)) = files st1
            \<and> files st1 = (files st)(f := Text (JSON_stringify d)))
 \<and> (writeFile_try f d st = None
        \<longrightarrow> \<not> fst (writeFile f d st) \<and> files (snd (writeFile f d st)) = files st)"
  by (auto simp add: readFile_def readFile_try_def fs_existsSync_def fs_readFileSync_def
      JSON_parse_def writeFile_def writeFile_try_def fs_writeFileSync_def JSON_stringify_def
      split: db_file.splits file_text.splits if_splits)

lemmas example_fs = fs_existsSync_def fs_readFileSync_def writeFile_try_def fs_writeFileSync_def
        JSON_parse_def JSON_stringify_def example_state_def example_files_def

theorem io_failure_absorbed_witness:
  "\<not> fs_existsSync example_state ''users.json''
 \<and> fst (readFile ''users.json'' example_state) = JArr []
 \<and> fs_readFileSync example_state ''locked.json'' = None
 \<and> fst (readFile ''locked.json'' example_state) = JArr []
 \<and> writeFile_try ''locked.json'' (JArr []) example_state = None
 \<and> \<not> fst (writeFile ''locked.json'' (JArr []) example_state)
 \<and> files (snd (writeFile ''locked.json'' (JArr []) example_state)) = files example_state
 \<and> fs_readFileSync example_state ''empty.json'' = Some Blank
 \<and> fst (readFile ''empty.json'' example_state) = JArr []
 \<and> fs_readFileSync example_state ''broken.json'' = Some Invalid
 \<and> JSON_parse Invalid = None
 \<and> fst (readFile ''broken.json'' example_state) = JArr []
 \<and> fs_readFileSync example_state ''orders.json'' = Some (Encodes (JArr [example_order]))
 \<and> fst (readFile ''orders.json'' example_state) = JArr [example_order]
 \<and> writeFile_try ''orders.json'' (JArr []) example_state
     = Some (example_state\<lparr>files := (files example_state)(''orders.json'' := Text (Encodes (JArr [])))\<rparr>)
 \<and> fst (writeFile ''orders.json'' (JArr []) example_state)
 \<and> files (snd (writeFile ''orders.json'' (JArr []) example_state)) ''orders.json''
     = Text (Encodes (JArr []))"
proof -
  have a: "\<not> fs_existsSync example_state ''users.json''"
    by (simp add: example_fs)
  have b: "fs_readFileSync example_state ''locked.json'' = None"
    by (simp add: example_fs)
  have c: "writeFile_try ''locked.json'' (JArr []) example_state = None"
    by (simp add: example_fs)
  have d: "fs_readFileSync example_state ''empty.json'' = Some Blank"
    by (simp add: example_fs)
  have e1: "fs_readFileSync example_state ''broken.json'' = Some Invalid"
    by (simp add: example_fs)
  have e2: "JSON_parse Invalid = None"
    by (simp add: example_fs)
  have g1: "fs_existsSync example_state ''orders.json''"
    by (simp add: example_fs)
  have g2: "fs_readFileSync example_state ''orders.json'' = Some (Encodes (JArr [example_order]))"
    by (simp add: example_fs)
  have g3: "JSON_parse (Encodes (JArr [example_order])) = Some (JArr [example_order])"
    by (simp add: example_fs)
  have h: "writeFile_try ''orders.json'' (JArr []) example_state
            = Some (example_state\<lparr>files := (files example_state)(''orders.json'' := Text (Encodes (JArr [])))\<rparr>)"
    by (simp add: example_fs)
  have 1: "fst (readFile ''users.json'' example_state) = JArr []"
    using io_failure_absorbed [of example_state "''users.json''" "JArr []"] a by blast
  have 2: "fst (readFile ''locked.json'' example_state) = JArr []"
    using io_failure_absorbed [of example_state "''locked.json''" "JArr []"] b by blast
  have 3: "\<not> fst (writeFile ''locked.json'' (JArr []) example_state)"
      "files (snd (writeFile ''locked.json'' (JArr []) example_state)) = files example_state"
    using io_failure_absorbed [of example_state "''locked.json''" "JArr []"] c by blast+
  have 4: "fst (readFile ''empty.json'' example_state) = JArr []"
    using io_failure_absorbed [of example_state "''empty.json''" "JArr []"] d by blast
  have 5: "fst (readFile ''broken.json'' example_state) = JArr []"
    using io_failure_absorbed [of example_state "''broken.json''" "JArr []"] e1 e2 by blast
  have 6: "fst (readFile ''orders.json'' example_state) = JArr [example_order]"
    using io_failure_absorbed [of example_state "''orders.json''" "JArr []"] g1 g2 g3 by blast
  have 7: "fst (writeFile ''orders.json'' (JArr []) example_state)"
    using io_failure_absorbed [of example_state "''orders.json''" "JArr []"] h by blast
  have "files (snd (writeFile ''orders.json'' (JArr []) example_state))
        = (files example_state)(''orders.json'' := Text (JSON_stringify (JArr [])))"
    using io_failure_absorbed [of example_state "''orders.json''" "JArr []"] h by auto
  then have 8: "files (snd (writeFile ''orders.json'' (JArr []) example_state)) ''orders.json''
     = Text (Encodes (JArr []))"
    by (simp add: JSON_stringify_def)
  show ?thesis
    by (intro conjI; fact)
qed

subsection \<open>What each operation reads and writes\<close>

lemma getAll_eq: "getAll f st = (parsed st f, st\<lparr>io := io st @ [Read f]\<rparr>)"
  by (simp add: getAll_def readFile_eq)

lemma getById_eq:
  "getById f i st =
     ((case as_array (parsed st f) of
         None \<Rightarrow> None
       | Some xs \<Rightarrow>
           (case js_find (id_matches i) xs of
              None \<Rightarrow> None
            | Some found \<Rightarrow> or_else found (Some JNull))),
      st\<lparr>io := io st @ [Read f]\<rparr>)"
  by (simp add: getById_def readFile_eq)

lemma search_eq:
  "search f k v st =
     ((case as_array (parsed st f) of None \<Rightarrow> None | Some xs \<Rightarrow> js_filter (field_includes k v) xs),
      st\<lparr>io := io st @ [Read f]\<rparr>)"
  by (simp add: search_def readFile_eq)

lemma filter_db_eq:
  "filter_db f p st =
     ((case as_array (parsed st f) of None \<Rightarrow> None | Some xs \<Rightarrow> js_filter p xs),
      st\<lparr>io := io st @ [Read f]\<rparr>)"
  by (simp add: filter_db_def readFile_eq)

lemma count_eq:
  "count f st = (get_prop (Some (parsed st f)) ''length'', st\<lparr>io := io st @ [Read f]\<rparr>)"
  by (simp add: count_def readFile_eq)

lemma create_eq:
  "create f r st =
     (case next_id (parsed st f) of
        None \<Rightarrow> (None, st\<lparr>io := io st @ [Read f]\<rparr>)
      | Some n \<Rightarrow>
          (case as_array (parsed st f) of
             None \<Rightarrow> (None, st\<lparr>io := io st @ [Read f], ticks := Suc (Suc (ticks st))\<rparr>)
           | Some xs \<Rightarrow>
               (Some (new_record r n st),
                st\<lparr>io := io st @ [Read f, Write f (JArr (xs @ [new_record r n st]))],
                   ticks := Suc (Suc (ticks st)),
                   files := (if unwritable st f then files st
                             else (files st)(f := Text (Encodes (JArr (xs @ [new_record r n st])))))\<rparr>)))"
  by (simp add: create_def readFile_eq writeFile_eq date_eq new_record_def Let_def
      split: option.splits)

lemma update_eq:
  "update f i u st =
     (case as_array (parsed st f) of
        None \<Rightarrow> (None, st\<lparr>io := io st @ [Read f]\<rparr>)
      | Some xs \<Rightarrow>
          (case js_findIndex (id_matches i) xs of
             None \<Rightarrow> (None, st\<lparr>io := io st @ [Read f]\<rparr>)
           | Some None \<Rightarrow> (Some JNull, st\<lparr>io := io st @ [Read f]\<rparr>)
           | Some (Some k) \<Rightarrow>
               (Some (merged_record (xs ! k) u st),
                st\<lparr>io := io st @ [Read f, Write f (JArr (xs[k := merged_record (xs ! k) u st]))],
                   ticks := Suc (ticks st),
                   files := (if unwritable st f then files st
                             else (files st)(f := Text (Encodes
                                    (JArr (xs[k := merged_record (xs ! k) u st])))))\<rparr>)))"
  by (simp add: update_def readFile_eq writeFile_eq date_eq merged_record_def Let_def
      split: option.splits)

lemma deleteRecord_eq:
  "deleteRecord f i st =
     (case as_array (parsed st f) of
        None \<Rightarrow> (None, st\<lparr>io := io st @ [Read f]\<rparr>)
      | Some xs \<Rightarrow>
          (case js_filter (id_differs i) xs of
             None \<Rightarrow> (None, st\<lparr>io := io st @ [Read f]\<rparr>)
           | Some ys \<Rightarrow>
               if length ys = length xs then (Some False, st\<lparr>io := io st @ [Read f]\<rparr>)
               else (Some True,
                     st\<lparr>io := io st @ [Read f, Write f (JArr ys)],
                        files := (if unwritable st f then files st
                                  else (files st)(f := Text (Encodes (JArr ys))))\<rparr>)))"
  by (simp add: deleteRecord_def readFile_eq writeFile_eq Let_def split: option.splits)

lemmas db_eqs = getAll_eq getById_eq search_eq filter_db_eq count_eq create_eq update_eq
  deleteRecord_eq

lemma as_array_JArr [simp]: "as_array (JArr xs) = Some xs"
  by (simp add: as_array_def)

lemma as_array_Some [simp]: "as_array v = Some xs \<longleftrightarrow> v = JArr xs"
  by (cases v) (auto simp: as_array_def)

lemma js_findIndex_Some:
  "js_findIndex p xs = Some (Some k) \<Longrightarrow>
     k < length xs \<and> p (xs ! k) = Some True \<and> (\<forall>j<k. p (xs ! j) = Some False)"
proof (induction xs arbitrary: k)
  case Nil
  then show ?case by simp
next
  case (Cons x xs)
  show ?case
  proof (cases "p x")
    case None
    with Cons.prems show ?thesis by simp
  next
    case (Some b)
    show ?thesis
    proof (cases b)
      case True
      with Some Cons.prems show ?thesis by simp
    next
      case False
      with Some Cons.prems obtain k' where k': "js_findIndex p xs = Some (Some k')" "k = Suc k'"
        by (auto split: option.splits)
      from Cons.IH [OF k'(1)] k'(2) Some False show ?thesis
        by (auto simp: less_Suc_eq_0_disj)
    qed
  qed
qed

lemma js_findIndex_None:
  "js_findIndex p xs = Some None \<Longrightarrow> \<forall>x\<in>set xs. p x = Some False"
  by (induction xs) (auto split: option.splits bool.splits)

lemma js_filter_Some:
  "js_filter p xs = Some ys \<Longrightarrow> ys = filter (\<lambda>x. p x = Some True) xs"
  by (induction xs arbitrary: ys) (auto split: option.splits bool.splits)

lemma reads_only_read:
  "io (snd (getAll f st)) = io st @ [Read f] \<and> files (snd (getAll f st)) = files st
 \<and> io (snd (getById f i st)) = io st @ [Read f] \<and> files (snd (getById f i st)) = files st
 \<and> io (snd (search f k v st)) = io st @ [Read f] \<and> files (snd (search f k v st)) = files st
 \<and> io (snd (filter_db f p st)) = io st @ [Read f] \<and> files (snd (filter_db f p st)) = files st
 \<and> io (snd (count f st)) = io st @ [Read f] \<and> files (snd (count f st)) = files st"
  by (simp add: db_eqs)

lemma results_from_parsed:
  assumes "parsed st f = parsed st' f"
  shows "fst (getAll f st) = fst (getAll f st')
       \<and> fst (getById f i st) = fst (getById f i st')
       \<and> fst (search f k v st) = fst (search f k v st')
       \<and> fst (filter_db f p st) = fst (filter_db f p st')
       \<and> fst (count f st) = fst (count f st')
       \<and> fst (deleteRecord f i st) = fst (deleteRecord f i st')"
  by (simp add: db_eqs assms split: option.splits)

lemma results_from_parsed_and_clock:
  assumes "parsed st f = parsed st' f" and "clock st = clock st'" and "ticks st = ticks st'"
  shows "fst (create f r st) = fst (create f r st')
       \<and> fst (update f i u st) = fst (update f i u st')"
  by (simp add: db_eqs assms new_record_def merged_record_def split: option.splits)

lemma create_whole:
  "(\<exists>xs record. parsed st f = JArr xs \<and> fst (create f r st) = Some record
      \<and> io (snd (create f r st)) = io st @ [Read f, Write f (JArr (xs @ [record]))]
      \<and> files (snd (create f r st))
          = (if unwritable st f then files st
             else (files st)(f := Text (JSON_stringify (JArr (xs @ [record]))))))
 \<or> (fst (create f r st) = None \<and> io (snd (create f r st)) = io st @ [Read f]
      \<and> files (snd (create f r st)) = files st)"
  by (cases "next_id (parsed st f)"; cases "as_array (parsed st f)")
     (auto simp: create_eq JSON_stringify_def)

lemma update_whole:
  "(\<exists>xs k merged. parsed st f = JArr xs \<and> k < length xs \<and> fst (update f i u st) = Some merged
      \<and> io (snd (update f i u st)) = io st @ [Read f, Write f (JArr (xs[k := merged]))]
      \<and> files (snd (update f i u st))
          = (if unwritable st f then files st
             else (files st)(f := Text (JSON_stringify (JArr (xs[k := merged]))))))
 \<or> ((fst (update f i u st) = None \<or> fst (update f i u st) = Some JNull)
      \<and> io (snd (update f i u st)) = io st @ [Read f]
      \<and> files (snd (update f i u st)) = files st)"
proof (cases "as_array (parsed st f)")
  case None
  then show ?thesis by (simp add: update_eq)
next
  case (Some xs)
  show ?thesis
  proof (cases "js_findIndex (id_matches i) xs")
    case None
    with Some show ?thesis by (simp add: update_eq)
  next
    case outer: (Some r)
    show ?thesis
    proof (cases r)
      case None
      with Some outer show ?thesis by (simp add: update_eq)
    next
      case inner: (Some k)
      with outer have "k < length xs" by (auto dest: js_findIndex_Some)
      with Some outer inner show ?thesis
        by (auto simp: update_eq JSON_stringify_def)
    qed
  qed
qed

lemma deleteRecord_whole:
  "(\<exists>xs ys. parsed st f = JArr xs \<and> js_filter (id_differs i) xs = Some ys
      \<and> length ys \<noteq> length xs \<and> fst (deleteRecord f i st) = Some True
      \<and> io (snd (deleteRecord f i st)) = io st @ [Read f, Write f (JArr ys)]
      \<and> files (snd (deleteRecord f i st))
          = (if unwritable st f then files st
             else (files st)(f := Text (JSON_stringify (JArr ys)))))
 \<or> ((fst (deleteRecord f i st) = None \<or> fst (deleteRecord f i st) = Some False)
      \<and> io (snd (deleteRecord f i st)) = io st @ [Read f]
      \<and> files (snd (deleteRecord f i st)) = files st)"
proof (cases "as_array (parsed st f)")
  case None
  then show ?thesis by (simp add: deleteRecord_eq)
next
  case (Some xs)
  show ?thesis
  proof (cases "js_filter (id_differs i) xs")
    case None
    with Some show ?thesis by (simp add: deleteRecord_eq)
  next
    case inner: (Some ys)
    with Some show ?thesis
      by (cases "length ys = length xs") (auto simp: deleteRecord_eq JSON_stringify_def)
  qed
qed

section \<open>Properties of the routes\<close>

lemma send_eq: "send c r = (Some \<lparr>statusCode = c, json = fst r\<rparr>, snd r)"
  by (simp add: send_def)

lemma snd_error [simp]: "snd (error m c d st) = st\<lparr>ticks := Suc (ticks st)\<rparr>"
  by (simp add: error_def date_eq)

lemma snd_success [simp]: "snd (success d m c st) = st\<lparr>ticks := Suc (ticks st)\<rparr>"
  by (simp add: success_def date_eq)

lemma snd_paginated [simp]: "snd (paginated d p l t st) = st\<lparr>ticks := Suc (ticks st)\<rparr>"
  by (simp add: paginated_def date_eq Let_def)

lemma try_catch_eq:
  "try_catch msg h st =
     (case fst (h st) of
        Some r \<Rightarrow> (r, snd (h st))
      | None \<Rightarrow> (\<lparr>statusCode = 500, json = fst (error msg 500 None (snd (h st)))\<rparr>,
                 (snd (h st))\<lparr>ticks := Suc (ticks (snd (h st)))\<rparr>))"
  by (cases "h st") (simp add: try_catch_def case_prod_beta Let_def split: option.splits)

subsection \<open>Which files a handler changes\<close>

lemma send_page_state:
  "snd (send_page xs page limit st) = st \<or> snd (send_page xs page limit st) = st\<lparr>ticks := Suc (ticks st)\<rparr>"
  by (cases xs) (simp_all add: send_page_def send_eq Let_def)

lemma send_page_files [simp]: "files (snd (send_page xs page limit st)) = files st"
  using send_page_state [of xs page limit st] by auto

lemmas handler_simps = guard_def guard_throwing_def error_handler_def try_catch_eq send_eq
  date_eq db_eqs

lemma fetch_by_id_files:
  "files (snd (fetch_by_id F a b c req st)) = files st"
  by (auto simp: fetch_by_id_def handler_simps split: option.splits if_splits)

lemma patch_by_id_frame:
  "g \<noteq> F \<Longrightarrow> files (snd (patch_by_id F a b req st)) g = files st g"
  by (auto simp: patch_by_id_def handler_simps split: option.splits if_splits)

lemma delete_by_id_frame:
  "g \<noteq> F \<Longrightarrow> files (snd (delete_by_id F a b c req st)) g = files st g"
  by (auto simp: delete_by_id_def handler_simps split: option.splits if_splits)

lemma products_list_files: "files (snd (products_list req st)) = files st"
  by (auto simp: products_list_def handler_simps Let_def split: option.splits if_splits)

lemma products_post_frame:
  "g \<noteq> products_FILENAME \<Longrightarrow> files (snd (products_post req st)) g = files st g"
  by (auto simp: products_post_def handler_simps split: option.splits if_splits bool.splits)

lemma products_put_frame:
  "g \<noteq> products_FILENAME \<Longrightarrow> files (snd (products_put req st)) g = files st g"
  by (auto simp: products_put_def handler_simps split: option.splits if_splits)

lemma products_patch_frame:
  "g \<noteq> products_FILENAME \<Longrightarrow> files (snd (products_patch req st)) g = files st g"
  using patch_by_id_frame [of g products_FILENAME]
  by (auto simp: products_patch_def guard_def try_catch_eq split: option.splits)

lemma products_low_stock_files: "files (snd (products_low_stock req st)) = files st"
  by (auto simp: products_low_stock_def handler_simps split: option.splits if_splits)

lemma products_by_category_files: "files (snd (products_by_category req st)) = files st"
  by (auto simp: products_by_category_def handler_simps split: option.splits if_splits)

lemma not_found_state [simp]: "snd (not_found req st) = st"
  by (simp add: not_found_def Let_def)

lemma health_files [simp]: "files (snd (health req st)) = files st"
  by (simp add: health_def date_eq)

lemma productRoutes_frame:
  "g \<noteq> products_FILENAME \<Longrightarrow> files (snd (productRoutes rest req st)) g = files st g"
  by (simp add: productRoutes_def products_list_files products_post_frame products_put_frame
      products_patch_frame products_low_stock_files products_by_category_files
      products_get_def products_delete_def fetch_by_id_files delete_by_id_frame
      split: http_method.splits list.splits)

lemma orders_list_files: "files (snd (orders_list req st)) = files st"
  by (auto simp: orders_list_def handler_simps Let_def split: option.splits if_splits)

lemma orders_post_frame:
  "g \<noteq> orders_FILENAME \<Longrightarrow> files (snd (orders_post req st)) g = files st g"
  by (auto simp: orders_post_def handler_simps split: option.splits if_splits bool.splits)

lemma orders_put_frame:
  "g \<noteq> orders_FILENAME \<Longrightarrow> files (snd (orders_put req st)) g = files st g"
  by (auto simp: orders_put_def handler_simps split: option.splits if_splits)

lemma orders_patch_frame:
  "g \<noteq> orders_FILENAME \<Longrightarrow> files (snd (orders_patch req st)) g = files st g"
  by (auto simp: orders_patch_def handler_simps split: option.splits if_splits bool.splits)

lemma orders_by_user_files: "files (snd (orders_by_user req st)) = files st"
  by (auto simp: orders_by_user_def handler_simps split: option.splits if_splits)

lemma orders_by_status_files: "files (snd (orders_by_status req st)) = files st"
  by (auto simp: orders_by_status_def handler_simps split: option.splits if_splits)

lemma orders_cancel_frame:
  "g \<noteq> orders_FILENAME \<Longrightarrow> files (snd (orders_cancel req st)) g = files st g"
  by (auto simp: orders_cancel_def handler_simps split: option.splits if_splits)

lemma orderRoutes_frame:
  "g \<noteq> orders_FILENAME \<Longrightarrow> files (snd (orderRoutes rest req st)) g = files st g"
  by (simp add: orderRoutes_def orders_list_files orders_post_frame orders_put_frame
      orders_patch_frame orders_by_user_files orders_by_status_files orders_cancel_frame
      orders_get_def orders_delete_def fetch_by_id_files delete_by_id_frame
      split: http_method.splits list.splits)

lemma users_list_files: "files (snd (users_list req st)) = files st"
  by (auto simp: users_list_def handler_simps Let_def split: option.splits if_splits)

lemma users_post_frame:
  "g \<noteq> users_FILENAME \<Longrightarrow> files (snd (users_post req st)) g = files st g"
  by (auto simp: users_post_def handler_simps split: option.splits if_splits bool.splits)

lemma users_put_frame:
  "g \<noteq> users_FILENAME \<Longrightarrow> files (snd (users_put req st)) g = files st g"
  by (auto simp: users_put_def handler_simps split: option.splits if_splits bool.splits)

lemma users_patch_frame:
  "g \<noteq> users_FILENAME \<Longrightarrow> files (snd (users_patch req st)) g = files st g"
  using patch_by_id_frame [of g users_FILENAME]
  by (auto simp: users_patch_def guard_def try_catch_eq split: option.splits)

lemma users_active_files: "files (snd (users_active req st)) = files st"
  by (auto simp: users_active_def handler_simps split: option.splits if_splits)

lemma userRoutes_frame:
  "g \<noteq> users_FILENAME \<Longrightarrow> files (snd (userRoutes rest req st)) g = files st g"
  by (simp add: userRoutes_def users_list_files users_post_frame users_put_frame
      users_patch_frame users_active_files
      users_get_def users_delete_def fetch_by_id_files delete_by_id_frame
      split: http_method.splits list.splits)

lemma app_products:
  "path req = a # b # rest \<Longrightarrow> seg ''api'' a \<Longrightarrow> seg ''products'' b \<Longrightarrow>
     app req = productRoutes rest req"
  by (simp add: app_def seg_def)

lemma app_orders:
  "path req = a # b # rest \<Longrightarrow> seg ''api'' a \<Longrightarrow> seg ''orders'' b \<Longrightarrow>
     app req = orderRoutes rest req"
  by (simp add: app_def seg_def)

lemma db_frame:
  "g \<noteq> f \<Longrightarrow>
       files (snd (readFile f st)) g = files st g
     \<and> files (snd (writeFile f d st)) g = files st g
     \<and> files (snd (getAll f st)) g = files st g
     \<and> files (snd (getById f i st)) g = files st g
     \<and> files (snd (create f r st)) g = files st g
     \<and> files (snd (update f i u st)) g = files st g
     \<and> files (snd (deleteRecord f i st)) g = files st g
     \<and> files (snd (search f k v st)) g = files st g
     \<and> files (snd (filter_db f p st)) g = files st g
     \<and> files (snd (count f st)) g = files st g"
  by (simp add: readFile_eq writeFile_eq db_eqs split: option.splits)

text \<open>
  C5. Storage is partitioned by file name. A database operation called with a file name
  reads only that file of the db directory (what \<open>readFile\<close> returns is determined by
  that one file) and leaves every other file as it was. The product routes are all called
  with \<^verbatim>\<open>products.json\<close> and the order routes with \<^verbatim>\<open>orders.json\<close>, so handling a
  request under \<^verbatim>\<open>/api/products\<close> changes at most \<^verbatim>\<open>products.json\<close> and handling a
  request under \<^verbatim>\<open>/api/orders\<close> changes at most \<^verbatim>\<open>orders.json\<close>.
\<close>

theorem storage_partitioned:
  "(\<forall>g. g \<noteq> f \<longrightarrow>
       files (snd (readFile f st)) g = files st g
     \<and> files (snd (writeFile f d st)) g = files st g
     \<and> files (snd (getAll f st)) g = files st g
     \<and> files (snd (getById f i st)) g = files st g
     \<and> files (snd (create f r st)) g = files st g
     \<and> files (snd (update f i u st)) g = files st g
     \<and> files (snd (deleteRecord f i st)) g = files st g
     \<and> files (snd (search f k v st)) g = files st g
     \<and> files (snd (filter_db f p st)) g = files st g
     \<and> files (snd (count f st)) g = files st g)
 \<and> (files st f = files st' f \<longrightarrow> fst (readFile f st) = fst (readFile f st'))
 \<and> products_FILENAME = ''products.json''
 \<and> orders_FILENAME = ''orders.json''
 \<and> (\<forall>g. g \<noteq> ''products.json'' \<longrightarrow> files (snd (productRoutes rest req st)) g = files st g)
 \<and> (\<forall>g. g \<noteq> ''orders.json'' \<longrightarrow> files (snd (orderRoutes rest req st)) g = files st g)
 \<and> (\<forall>a b rest' g. path req = a # b # rest' \<and> seg ''api'' a \<and> seg ''products'' b
        \<and> g \<noteq> ''products.json'' \<longrightarrow> files (snd (app req st)) g = files st g)
 \<and> (\<forall>a b rest' g. path req = a # b # rest' \<and> seg ''api'' a \<and> seg ''orders'' b
        \<and> g \<noteq> ''orders.json'' \<longrightarrow> files (snd (app req st)) g = files st g)"
proof -
  have db: "\<forall>g. g \<noteq> f \<longrightarrow>
       files (snd (readFile f st)) g = files st g
     \<and> files (snd (writeFile f d st)) g = files st g
     \<and> files (snd (getAll f st)) g = files st g
     \<and> files (snd (getById f i st)) g = files st g
     \<and> files (snd (create f r st)) g = files st g
     \<and> files (snd (update f i u st)) g = files st g
     \<and> files (snd (deleteRecord f i st)) g = files st g
     \<and> files (snd (search f k v st)) g = files st g
     \<and> files (snd (filter_db f p st)) g = files st g
     \<and> files (snd (count f st)) g = files st g"
    using db_frame by blast
  have rd: "files st f = files st' f \<longrightarrow> fst (readFile f st) = fst (readFile f st')"
    by (simp add: readFile_eq parsed_eq)
  have pn: "products_FILENAME = ''products.json''" and "on": "orders_FILENAME = ''orders.json''"
    by (simp_all add: products_FILENAME_def orders_FILENAME_def)
  have pr: "\<forall>g. g \<noteq> ''products.json'' \<longrightarrow> files (snd (productRoutes rest req st)) g = files st g"
    using productRoutes_frame pn by simp
  have orr: "\<forall>g. g \<noteq> ''orders.json'' \<longrightarrow> files (snd (orderRoutes rest req st)) g = files st g"
    using orderRoutes_frame "on" by simp
  have ap: "\<forall>a b rest' g. path req = a # b # rest' \<and> seg ''api'' a \<and> seg ''products'' b
        \<and> g \<noteq> ''products.json'' \<longrightarrow> files (snd (app req st)) g = files st g"
    using productRoutes_frame pn by (auto simp: app_products)
  have ao: "\<forall>a b rest' g. path req = a # b # rest' \<and> seg ''api'' a \<and> seg ''orders'' b
        \<and> g \<noteq> ''orders.json'' \<longrightarrow> files (snd (app req st)) g = files st g"
    using orderRoutes_frame "on" by (auto simp: app_orders)
  show ?thesis
    by (rule conjI [OF db conjI [OF rd conjI [OF pn conjI [OF "on" conjI [OF pr
          conjI [OF orr conjI [OF ap ao]]]]]]])
qed

theorem storage_partitioned_witness:
  "path (example_request POST [''API'', ''products''] example_product_body) = [''API'', ''products'']
 \<and> seg ''api'' ''API'' \<and> seg ''products'' ''products''
 \<and> ''orders.json'' \<noteq> ''products.json''
 \<and> files (snd (app (example_request POST [''API'', ''products''] example_product_body) example_state))
       ''orders.json''
     = files example_state ''orders.json''
 \<and> statusCode (fst (app (example_request POST [''API'', ''products''] example_product_body) example_state))
     = 201
 \<and> files (snd (app (example_request POST [''API'', ''products''] example_product_body) example_state))
       ''products.json''
     \<noteq> files example_state ''products.json''"
proof -
  let ?req = "example_request POST [''API'', ''products''] example_product_body"
  have p: "path ?req = [''API'', ''products'']"
    by (simp add: example_request_def)
  have s1: "seg ''api'' ''API''" and s2: "seg ''products'' ''products''"
    by code_simp+
  have n: "''orders.json'' \<noteq> ''products.json''"
    by simp
  note inst = storage_partitioned [of "''products.json''" example_state JNull None None None "[]"
      None "\<lambda>_. None" example_state "[]" ?req]
  note part = inst [THEN conjunct2, THEN conjunct2, THEN conjunct2, THEN conjunct2,
      THEN conjunct2, THEN conjunct2, THEN conjunct1]
  have frame: "files (snd (app ?req example_state)) ''orders.json'' = files example_state ''orders.json''"
    using part [rule_format, of "''API''" "''products''" "[]" "''orders.json''"] p s1 s2 n
    by simp
  have created: "statusCode (fst (app ?req example_state)) = 201"
    by code_simp
  have changed: "files (snd (app ?req example_state)) ''products.json''
                   \<noteq> files example_state ''products.json''"
    by code_simp
  show ?thesis
    by (intro conjI; fact)
qed

subsection \<open>No handler reads a header\<close>

lemma param_headers [simp]: "param (req\<lparr>headers := h\<rparr>) k = param req k"
  by (simp add: param_def)

lemma validateRequired_headers [simp]:
  "validateRequired fs (req\<lparr>headers := h\<rparr>) = validateRequired fs req"
  by (simp add: validateRequired_def)

lemma validateEmail_headers [simp]: "validateEmail (req\<lparr>headers := h\<rparr>) = validateEmail req"
  by (simp add: validateEmail_def)

lemma validatePhone_headers [simp]: "validatePhone (req\<lparr>headers := h\<rparr>) = validatePhone req"
  by (simp add: validatePhone_def)

lemma validateId_headers [simp]: "validateId (req\<lparr>headers := h\<rparr>) = validateId req"
  by (simp add: validateId_def route_id_def)

lemma query_int_headers [simp]: "query_int (req\<lparr>headers := h\<rparr>) k d = query_int req k d"
  by (simp add: query_int_def)

lemma with_param_headers [simp]:
  "with_param (req\<lparr>headers := h\<rparr>) n s = (with_param req n s)\<lparr>headers := h\<rparr>"
  by (simp add: with_param_def)

lemma not_found_headers [simp]: "not_found (req\<lparr>headers := h\<rparr>) = not_found req"
  by (simp add: not_found_def fun_eq_iff cong: option.case_cong prod.case_cong if_cong bool.case_cong)

lemma health_headers [simp]: "health (req\<lparr>headers := h\<rparr>) = health req"
  by (simp add: health_def fun_eq_iff cong: option.case_cong prod.case_cong if_cong bool.case_cong)

lemma fetch_by_id_headers [simp]:
  "fetch_by_id F a b c (req\<lparr>headers := h\<rparr>) = fetch_by_id F a b c req"
  by (simp add: fetch_by_id_def fun_eq_iff cong: option.case_cong prod.case_cong if_cong bool.case_cong)

lemma patch_by_id_headers [simp]:
  "patch_by_id F a b (req\<lparr>headers := h\<rparr>) = patch_by_id F a b req"
  by (simp add: patch_by_id_def fun_eq_iff cong: option.case_cong prod.case_cong if_cong bool.case_cong)

lemma delete_by_id_headers [simp]:
  "delete_by_id F a b c (req\<lparr>headers := h\<rparr>) = delete_by_id F a b c req"
  by (simp add: delete_by_id_def fun_eq_iff cong: option.case_cong prod.case_cong if_cong bool.case_cong)

lemma products_headers [simp]:
  "products_filtered (req\<lparr>headers := h\<rparr>) = products_filtered req"
  "products_sorted cmp (req\<lparr>headers := h\<rparr>) = products_sorted cmp req"
  "products_list (req\<lparr>headers := h\<rparr>) = products_list req"
  "products_get (req\<lparr>headers := h\<rparr>) = products_get req"
  "products_post (req\<lparr>headers := h\<rparr>) = products_post req"
  "products_put (req\<lparr>headers := h\<rparr>) = products_put req"
  "products_patch (req\<lparr>headers := h\<rparr>) = products_patch req"
  "products_delete (req\<lparr>headers := h\<rparr>) = products_delete req"
  "products_low_stock (req\<lparr>headers := h\<rparr>) = products_low_stock req"
  "products_by_category (req\<lparr>headers := h\<rparr>) = products_by_category req"
  by (simp_all add: products_filtered_def products_sorted_def products_list_def products_get_def
      products_post_def products_put_def products_patch_def products_delete_def
      products_low_stock_def products_by_category_def fun_eq_iff cong: option.case_cong prod.case_cong if_cong bool.case_cong)

lemma orders_headers [simp]:
  "orders_filtered (req\<lparr>headers := h\<rparr>) = orders_filtered req"
  "orders_list (req\<lparr>headers := h\<rparr>) = orders_list req"
  "orders_get (req\<lparr>headers := h\<rparr>) = orders_get req"
  "orders_post (req\<lparr>headers := h\<rparr>) = orders_post req"
  "orders_put (req\<lparr>headers := h\<rparr>) = orders_put req"
  "orders_patch (req\<lparr>headers := h\<rparr>) = orders_patch req"
  "orders_delete (req\<lparr>headers := h\<rparr>) = orders_delete req"
  "orders_by_user (req\<lparr>headers := h\<rparr>) = orders_by_user req"
  "orders_by_status (req\<lparr>headers := h\<rparr>) = orders_by_status req"
  "orders_cancel (req\<lparr>headers := h\<rparr>) = orders_cancel req"
  by (simp_all add: orders_filtered_def orders_list_def orders_get_def orders_post_def
      orders_put_def orders_patch_def orders_delete_def orders_by_user_def orders_by_status_def
      orders_cancel_def fun_eq_iff cong: option.case_cong prod.case_cong if_cong bool.case_cong)

lemma users_headers [simp]:
  "users_filtered (req\<lparr>headers := h\<rparr>) = users_filtered req"
  "users_list (req\<lparr>headers := h\<rparr>) = users_list req"
  "users_get (req\<lparr>headers := h\<rparr>) = users_get req"
  "users_post (req\<lparr>headers := h\<rparr>) = users_post req"
  "users_put (req\<lparr>headers := h\<rparr>) = users_put req"
  "users_patch (req\<lparr>headers := h\<rparr>) = users_patch req"
  "users_delete (req\<lparr>headers := h\<rparr>) = users_delete req"
  "users_active (req\<lparr>headers := h\<rparr>) = users_active req"
  by (simp_all add: users_filtered_def users_list_def users_get_def users_post_def
      users_put_def users_patch_def users_delete_def users_active_def fun_eq_iff cong: option.case_cong prod.case_cong if_cong bool.case_cong)

lemma routers_headers [simp]:
  "productRoutes rest (req\<lparr>headers := h\<rparr>) = productRoutes rest req"
  "orderRoutes rest (req\<lparr>headers := h\<rparr>) = orderRoutes rest req"
  "userRoutes rest (req\<lparr>headers := h\<rparr>) = userRoutes rest req"
  by (simp_all add: productRoutes_def orderRoutes_def userRoutes_def
      cong: http_method.case_cong list.case_cong if_cong)

text \<open>
  C4. No route looks at a header. The headers of a request, among them
  \<^verbatim>\<open>Authorization\<close> and \<^verbatim>\<open>Cookie\<close>, are a field of the request that no handler and
  no validator reads: replacing them by any others changes neither the response (status
  and body) nor the resulting state (the files, the calls made, the clock). The
  timestamps in a response are read from the clock, which is part of the state, so two
  requests handled at different times differ in their timestamps and in nothing else that
  the headers could explain.
\<close>

theorem no_authentication:
  "app (req\<lparr>headers := h\<rparr>) st = app req st"
  by (simp add: app_def cong: list.case_cong if_cong)

theorem no_authentication_witness:
  "app ((example_request POST [''api'', ''orders'', ''1'', ''cancel''] (JObj []))
          \<lparr>headers := [(''authorization'', ''Bearer secret''), (''cookie'', ''session=1'')]\<rparr>)
       example_state
   = app (example_request POST [''api'', ''orders'', ''1'', ''cancel''] (JObj [])) example_state"
  by (rule no_authentication)

subsection \<open>Validation comes first\<close>

lemma is_missing_cases:
  "field b fld = None \<or> field b fld = Some JNull \<or> field b fld = Some (JStr []) \<Longrightarrow> is_missing b fld"
  by (auto simp: is_missing_def trim_def)

lemma validateRequired_rejects:
  assumes "fld \<in> set flds" and "is_missing (body req) fld"
  shows "\<exists>r. validateRequired flds req = Some r \<and> statusCode r = 400"
proof -
  from assms have "filter (is_missing (body req)) flds \<noteq> []"
    by (auto simp: filter_empty_conv)
  then show ?thesis
    by (simp add: validateRequired_def Let_def)
qed

lemma post_missing_field:
  assumes "is_missing (body req) fld"
  shows "fld \<in> set [''name'', ''price'', ''category'', ''stock''] \<longrightarrow>
           statusCode (fst (products_post req st)) = 400 \<and> snd (products_post req st) = st"
    and "fld \<in> set [''userId'', ''items'', ''totalAmount''] \<longrightarrow>
           statusCode (fst (orders_post req st)) = 400 \<and> snd (orders_post req st) = st"
    and "fld \<in> set [''name'', ''email'', ''phone''] \<longrightarrow>
           statusCode (fst (users_post req st)) = 400 \<and> snd (users_post req st) = st"
proof -
  show "fld \<in> set [''name'', ''price'', ''category'', ''stock''] \<longrightarrow>
           statusCode (fst (products_post req st)) = 400 \<and> snd (products_post req st) = st"
  proof
    assume "fld \<in> set [''name'', ''price'', ''category'', ''stock'']"
    from validateRequired_rejects [OF this assms] obtain r where
      "validateRequired [''name'', ''price'', ''category'', ''stock''] req = Some r" "statusCode r = 400"
      by blast
    then show "statusCode (fst (products_post req st)) = 400 \<and> snd (products_post req st) = st"
      by (simp add: products_post_def guard_def)
  qed
  show "fld \<in> set [''userId'', ''items'', ''totalAmount''] \<longrightarrow>
           statusCode (fst (orders_post req st)) = 400 \<and> snd (orders_post req st) = st"
  proof
    assume "fld \<in> set [''userId'', ''items'', ''totalAmount'']"
    from validateRequired_rejects [OF this assms] obtain r where
      "validateRequired [''userId'', ''items'', ''totalAmount''] req = Some r" "statusCode r = 400"
      by blast
    then show "statusCode (fst (orders_post req st)) = 400 \<and> snd (orders_post req st) = st"
      by (simp add: orders_post_def guard_def)
  qed
  show "fld \<in> set [''name'', ''email'', ''phone''] \<longrightarrow>
           statusCode (fst (users_post req st)) = 400 \<and> snd (users_post req st) = st"
  proof
    assume "fld \<in> set [''name'', ''email'', ''phone'']"
    from validateRequired_rejects [OF this assms] obtain r where
      "validateRequired [''name'', ''email'', ''phone''] req = Some r" "statusCode r = 400"
      by blast
    then show "statusCode (fst (users_post req st)) = 400 \<and> snd (users_post req st) = st"
      by (simp add: users_post_def guard_def)
  qed
qed

lemma product_invalid_price:
  "to_number (field b ''price'') = Some np \<Longrightarrow> np = NaN \<or> num_lt np (Num 0) \<Longrightarrow>
     product_invalid b = Some True"
  by (auto simp: product_invalid_def or_throw_def isNaN_def lt_zero_def split: bool.splits)

lemma product_invalid_stock:
  "to_number (field b ''price'') = Some np \<Longrightarrow> to_number (field b ''stock'') = Some ns \<Longrightarrow>
     ns = NaN \<or> num_lt ns (Num 0) \<Longrightarrow> product_invalid b = Some True"
  by (auto simp: product_invalid_def or_throw_def isNaN_def lt_zero_def split: bool.splits)

lemma products_post_invalid:
  assumes "product_invalid (body req) = Some True"
  shows "statusCode (fst (products_post req st)) = 400
       \<and> files (snd (products_post req st)) = files st
       \<and> io (snd (products_post req st)) = io st"
  using assms
  by (cases "validateRequired [''name'', ''price'', ''category'', ''stock''] req")
     (auto simp: products_post_def guard_def try_catch_eq send_eq validateRequired_def Let_def
           split: if_splits)

lemma amount_invalid_iff:
  "to_number (field b ''totalAmount'') = Some n \<Longrightarrow> n = NaN \<or> num_le n (Num 0) \<Longrightarrow>
     amount_invalid b = Some True"
  by (auto simp: amount_invalid_def or_throw_def isNaN_def le_zero_def split: bool.splits)

lemma orders_post_invalid:
  assumes "items_invalid (body req) \<or> amount_invalid (body req) = Some True"
  shows "statusCode (fst (orders_post req st)) = 400
       \<and> files (snd (orders_post req st)) = files st
       \<and> io (snd (orders_post req st)) = io st"
  using assms
  by (cases "validateRequired [''userId'', ''items'', ''totalAmount''] req")
     (auto simp: orders_post_def guard_def try_catch_eq send_eq validateRequired_def Let_def
           split: if_splits)

lemma items_invalid_cases:
  "(\<forall>xs. field b ''items'' \<noteq> Some (JArr xs)) \<or> field b ''items'' = Some (JArr []) \<Longrightarrow>
     items_invalid b"
  by (auto simp: items_invalid_def split: option.splits jsval.splits)

lemma delete_by_id_400:
  "statusCode (fst (delete_by_id F a b c req st)) = 400 \<Longrightarrow>
     files (snd (delete_by_id F a b c req st)) = files st"
  by (auto simp: delete_by_id_def handler_simps split: option.splits if_splits)

lemma patch_by_id_400:
  "fst (patch_by_id F a b req st) = Some r \<Longrightarrow> statusCode r = 400 \<Longrightarrow>
     files (snd (patch_by_id F a b req st)) = files st"
  by (auto simp: patch_by_id_def handler_simps split: option.splits if_splits)

lemma patch_by_id_500:
  "fst (patch_by_id F a b req st) = None \<Longrightarrow>
     files (snd (patch_by_id F a b req st)) = files st"
  by (auto simp: patch_by_id_def handler_simps split: option.splits if_splits)

lemma products_400:
  "statusCode (fst (products_post req st)) = 400 \<Longrightarrow> files (snd (products_post req st)) = files st"
  "statusCode (fst (products_put req st)) = 400 \<Longrightarrow> files (snd (products_put req st)) = files st"
  "statusCode (fst (products_patch req st)) = 400 \<Longrightarrow> files (snd (products_patch req st)) = files st"
  "statusCode (fst (products_delete req st)) = 400 \<Longrightarrow> files (snd (products_delete req st)) = files st"
     apply (auto simp: products_post_def handler_simps split: option.splits if_splits bool.splits)[1]
    apply (auto simp: products_put_def handler_simps split: option.splits if_splits bool.splits)[1]
   apply (auto simp: products_patch_def guard_def try_catch_eq patch_by_id_500
      split: option.splits if_splits dest: patch_by_id_400)[1]
  apply (simp add: products_delete_def delete_by_id_400)
  done

lemma orders_400:
  "statusCode (fst (orders_post req st)) = 400 \<Longrightarrow> files (snd (orders_post req st)) = files st"
  "statusCode (fst (orders_put req st)) = 400 \<Longrightarrow> files (snd (orders_put req st)) = files st"
  "statusCode (fst (orders_patch req st)) = 400 \<Longrightarrow> files (snd (orders_patch req st)) = files st"
  "statusCode (fst (orders_delete req st)) = 400 \<Longrightarrow> files (snd (orders_delete req st)) = files st"
  "statusCode (fst (orders_cancel req st)) = 400 \<Longrightarrow> files (snd (orders_cancel req st)) = files st"
      apply (auto simp: orders_post_def handler_simps split: option.splits if_splits bool.splits)[1]
     apply (auto simp: orders_put_def handler_simps split: option.splits if_splits bool.splits)[1]
    apply (auto simp: orders_patch_def handler_simps split: option.splits if_splits bool.splits)[1]
   apply (simp add: orders_delete_def delete_by_id_400)
  apply (auto simp: orders_cancel_def handler_simps split: option.splits if_splits bool.splits)[1]
  done

lemma users_400:
  "statusCode (fst (users_post req st)) = 400 \<Longrightarrow> files (snd (users_post req st)) = files st"
  "statusCode (fst (users_put req st)) = 400 \<Longrightarrow> files (snd (users_put req st)) = files st"
  "statusCode (fst (users_patch req st)) = 400 \<Longrightarrow> files (snd (users_patch req st)) = files st"
  "statusCode (fst (users_delete req st)) = 400 \<Longrightarrow> files (snd (users_delete req st)) = files st"
     apply (auto simp: users_post_def handler_simps split: option.splits if_splits bool.splits)[1]
    apply (auto simp: users_put_def handler_simps split: option.splits if_splits bool.splits)[1]
   apply (auto simp: users_patch_def guard_def try_catch_eq patch_by_id_500
      split: option.splits if_splits dest: patch_by_id_400)[1]
  apply (simp add: users_delete_def delete_by_id_400)
  done

lemma routers_400:
  "statusCode (fst (productRoutes rest req st)) = 400 \<Longrightarrow> files (snd (productRoutes rest req st)) = files st"
  "statusCode (fst (orderRoutes rest req st)) = 400 \<Longrightarrow> files (snd (orderRoutes rest req st)) = files st"
  "statusCode (fst (userRoutes rest req st)) = 400 \<Longrightarrow> files (snd (userRoutes rest req st)) = files st"
    apply (auto simp: productRoutes_def products_400 products_list_files products_low_stock_files
      products_by_category_files products_get_def fetch_by_id_files
      split: http_method.splits list.splits if_splits)[1]
   apply (auto simp: orderRoutes_def orders_400 orders_list_files orders_by_user_files
      orders_by_status_files orders_get_def fetch_by_id_files
      split: http_method.splits list.splits if_splits)[1]
  apply (auto simp: userRoutes_def users_400 users_list_files users_active_files
      users_get_def fetch_by_id_files
      split: http_method.splits list.splits if_splits)[1]
  done

lemma app_400:
  "statusCode (fst (app req st)) = 400 \<Longrightarrow> files (snd (app req st)) = files st"
  by (auto simp: app_def routers_400 split: list.splits if_splits)

text \<open>
  C3, as the code has it. Validation comes before storage. A POST whose required field is
  absent, \<^verbatim>\<open>null\<close> or the empty string is answered with 400 by \<open>validateRequired\<close>, the
  state being exactly as before. The inline checks of the two POST routes are on what a
  value converts to (\<open>to_number\<close>, the conversion that \<^verbatim>\<open>isNaN\<close> and the comparisons
  apply), not on its being a number: POST /api/products is answered with 400 when the
  price converts to \<^verbatim>\<open>NaN\<close> or to a negative number, and when the price converts to
  a number at all and the stock converts to \<^verbatim>\<open>NaN\<close> or to a negative number; POST
  /api/orders is answered with 400 when the items are not a non-empty array, and when the
  total amount converts to \<^verbatim>\<open>NaN\<close> or to a number that is not positive; each time
  without any call of the database layer, the files being as before. Finally, whatever the
  request and the route, a response with status 400 leaves every file as it was.
\<close>

theorem validation_before_storage:
  "(\<forall>fld. field (body req) fld = None \<or> field (body req) fld = Some JNull
           \<or> field (body req) fld = Some (JStr []) \<longrightarrow>
      (fld \<in> set [''name'', ''price'', ''category'', ''stock''] \<longrightarrow>
         statusCode (fst (products_post req st)) = 400 \<and> snd (products_post req st) = st)
    \<and> (fld \<in> set [''userId'', ''items'', ''totalAmount''] \<longrightarrow>
         statusCode (fst (orders_post req st)) = 400 \<and> snd (orders_post req st) = st)
    \<and> (fld \<in> set [''name'', ''email'', ''phone''] \<longrightarrow>
         statusCode (fst (users_post req st)) = 400 \<and> snd (users_post req st) = st))
 \<and> (\<forall>np. to_number (field (body req) ''price'') = Some np \<and> (np = NaN \<or> num_lt np (Num 0)) \<longrightarrow>
        statusCode (fst (products_post req st)) = 400
      \<and> files (snd (products_post req st)) = files st
      \<and> io (snd (products_post req st)) = io st)
 \<and> (\<forall>np ns. to_number (field (body req) ''price'') = Some np
        \<and> to_number (field (body req) ''stock'') = Some ns \<and> (ns = NaN \<or> num_lt ns (Num 0)) \<longrightarrow>
        statusCode (fst (products_post req st)) = 400
      \<and> files (snd (products_post req st)) = files st
      \<and> io (snd (products_post req st)) = io st)
 \<and> ((\<forall>xs. field (body req) ''items'' \<noteq> Some (JArr xs)) \<or> field (body req) ''items'' = Some (JArr []) \<longrightarrow>
        statusCode (fst (orders_post req st)) = 400
      \<and> files (snd (orders_post req st)) = files st
      \<and> io (snd (orders_post req st)) = io st)
 \<and> (\<forall>n. to_number (field (body req) ''totalAmount'') = Some n \<and> (n = NaN \<or> num_le n (Num 0)) \<longrightarrow>
        statusCode (fst (orders_post req st)) = 400
      \<and> files (snd (orders_post req st)) = files st
      \<and> io (snd (orders_post req st)) = io st)
 \<and> (statusCode (fst (app req st)) = 400 \<longrightarrow> files (snd (app req st)) = files st)"
proof -
  have required: "\<forall>fld. field (body req) fld = None \<or> field (body req) fld = Some JNull
           \<or> field (body req) fld = Some (JStr []) \<longrightarrow>
      (fld \<in> set [''name'', ''price'', ''category'', ''stock''] \<longrightarrow>
         statusCode (fst (products_post req st)) = 400 \<and> snd (products_post req st) = st)
    \<and> (fld \<in> set [''userId'', ''items'', ''totalAmount''] \<longrightarrow>
         statusCode (fst (orders_post req st)) = 400 \<and> snd (orders_post req st) = st)
    \<and> (fld \<in> set [''name'', ''email'', ''phone''] \<longrightarrow>
         statusCode (fst (users_post req st)) = 400 \<and> snd (users_post req st) = st)"
    using post_missing_field [OF is_missing_cases] by blast
  have price: "\<forall>np. to_number (field (body req) ''price'') = Some np \<and> (np = NaN \<or> num_lt np (Num 0)) \<longrightarrow>
        statusCode (fst (products_post req st)) = 400
      \<and> files (snd (products_post req st)) = files st
      \<and> io (snd (products_post req st)) = io st"
    using products_post_invalid [OF product_invalid_price] by blast
  have stock: "\<forall>np ns. to_number (field (body req) ''price'') = Some np
        \<and> to_number (field (body req) ''stock'') = Some ns \<and> (ns = NaN \<or> num_lt ns (Num 0)) \<longrightarrow>
        statusCode (fst (products_post req st)) = 400
      \<and> files (snd (products_post req st)) = files st
      \<and> io (snd (products_post req st)) = io st"
    using products_post_invalid [OF product_invalid_stock] by blast
  have items: "(\<forall>xs. field (body req) ''items'' \<noteq> Some (JArr xs)) \<or> field (body req) ''items'' = Some (JArr []) \<longrightarrow>
        statusCode (fst (orders_post req st)) = 400
      \<and> files (snd (orders_post req st)) = files st
      \<and> io (snd (orders_post req st)) = io st"
    using orders_post_invalid [of req st] items_invalid_cases [of "body req"] by blast
  have amount: "\<forall>n. to_number (field (body req) ''totalAmount'') = Some n \<and> (n = NaN \<or> num_le n (Num 0)) \<longrightarrow>
        statusCode (fst (orders_post req st)) = 400
      \<and> files (snd (orders_post req st)) = files st
      \<and> io (snd (orders_post req st)) = io st"
    using orders_post_invalid [of req st] amount_invalid_iff [of "body req"] by blast
  have any: "statusCode (fst (app req st)) = 400 \<longrightarrow> files (snd (app req st)) = files st"
    using app_400 by blast
  show ?thesis
    by (rule conjI [OF required conjI [OF price conjI [OF stock conjI [OF items
          conjI [OF amount any]]]]])
qed

theorem validation_before_storage_witness:
  "field example_no_name ''name'' = Some (JStr [])
 \<and> ''name'' \<in> set [''name'', ''price'', ''category'', ''stock'']
 \<and> statusCode (fst (products_post (example_request POST [''api'', ''products''] example_no_name)
                      example_state)) = 400
 \<and> snd (products_post (example_request POST [''api'', ''products''] example_no_name) example_state)
     = example_state
 \<and> to_number (field example_bad_price ''price'') = Some NaN
 \<and> statusCode (fst (products_post (example_request POST [''api'', ''products''] example_bad_price)
                      example_state)) = 400
 \<and> files (snd (products_post (example_request POST [''api'', ''products''] example_bad_price)
                 example_state)) = files example_state
 \<and> field example_bad_order ''items'' = Some (JArr [])
 \<and> to_number (field example_bad_order ''totalAmount'') = Some (Num (- 3))
 \<and> num_le (Num (- 3)) (Num 0)
 \<and> statusCode (fst (orders_post (example_request POST [''api'', ''orders''] example_bad_order)
                      example_state)) = 400
 \<and> io (snd (orders_post (example_request POST [''api'', ''orders''] example_bad_order)
              example_state)) = io example_state
 \<and> statusCode (fst (app (example_request POST [''api'', ''products''] example_bad_price)
                      example_state)) = 400
 \<and> files (snd (app (example_request POST [''api'', ''products''] example_bad_price) example_state))
     = files example_state"
proof -
  let ?r1 = "example_request POST [''api'', ''products''] example_no_name"
  let ?r2 = "example_request POST [''api'', ''products''] example_bad_price"
  let ?r3 = "example_request POST [''api'', ''orders''] example_bad_order"
  have b1: "body ?r1 = example_no_name" and b2: "body ?r2 = example_bad_price"
    and b3: "body ?r3 = example_bad_order"
    by (simp_all add: example_request_def)
  have h1: "field example_no_name ''name'' = Some (JStr [])"
    by code_simp
  have m1: "''name'' \<in> set [''name'', ''price'', ''category'', ''stock'']"
    by simp
  have h2: "to_number (field example_bad_price ''price'') = Some NaN"
    by code_simp
  have h3: "field example_bad_order ''items'' = Some (JArr [])"
    by code_simp
  have h4: "to_number (field example_bad_order ''totalAmount'') = Some (Num (- 3))"
    by code_simp
  have h5: "num_le (Num (- 3)) (Num 0)"
    by code_simp
  note i1 = validation_before_storage [of ?r1 example_state, THEN conjunct1, rule_format,
      of "''name''", THEN conjunct1, rule_format]
  have c1: "statusCode (fst (products_post ?r1 example_state)) = 400
            \<and> snd (products_post ?r1 example_state) = example_state"
    using i1 h1 m1 b1 by simp
  note i2 = validation_before_storage [of ?r2 example_state, THEN conjunct2, THEN conjunct1,
      rule_format, of NaN]
  have c2: "statusCode (fst (products_post ?r2 example_state)) = 400
            \<and> files (snd (products_post ?r2 example_state)) = files example_state
            \<and> io (snd (products_post ?r2 example_state)) = io example_state"
    using i2 h2 b2 by simp
  note i3 = validation_before_storage [of ?r3 example_state, THEN conjunct2, THEN conjunct2,
      THEN conjunct2, THEN conjunct2, THEN conjunct1, rule_format, of "Num (- 3)"]
  have c3: "statusCode (fst (orders_post ?r3 example_state)) = 400
            \<and> files (snd (orders_post ?r3 example_state)) = files example_state
            \<and> io (snd (orders_post ?r3 example_state)) = io example_state"
    using i3 h4 h5 b3 by simp
  have s4: "statusCode (fst (app ?r2 example_state)) = 400"
    by code_simp
  note i4 = validation_before_storage [of ?r2 example_state, THEN conjunct2, THEN conjunct2,
      THEN conjunct2, THEN conjunct2, THEN conjunct2, rule_format]
  have c4: "files (snd (app ?r2 example_state)) = files example_state"
    using i4 s4 by simp
  from h1 m1 c1 h2 c2 h3 h4 h5 c3 s4 c4 show ?thesis
    by blast
qed

text \<open>
  C3 as stated fails on a price that is not a number and yet converts to one: \<^verbatim>\<open>true\<close>
  converts to 1, so \<^verbatim>\<open>isNaN(true)\<close> and \<^verbatim>\<open>true < 0\<close> are both false, the product is
  created (201), and its price, \<^verbatim>\<open>parseFloat(true)\<close>, is stored as \<^verbatim>\<open>null\<close>. It also
  fails on a negative stock next to a price whose conversion throws (an object with a
  \<^verbatim>\<open>toString\<close> property of its own): the exception is caught and the answer is 500.
\<close>

theorem validation_counterexample:
  "field example_true_price ''price'' = Some (JBool True)
 \<and> parsed example_state ''products.json'' = JArr [example_product]
 \<and> statusCode (fst (app (example_request POST [''api'', ''products''] example_true_price)
                      example_state)) = 201
 \<and> parsed (snd (app (example_request POST [''api'', ''products''] example_true_price) example_state))
      ''products.json''
     = JArr [example_product,
             JObj [(''id'', JNum 5), (''name'', JStr ''Mouse''), (''price'', JNull),
                   (''category'', JStr ''electronics''), (''stock'', JNum 3),
                   (''description'', JStr []), (''image'', JStr []), (''inStock'', JBool True),
                   (''createdAt'', JStr []), (''updatedAt'', JStr ''I'')]]
 \<and> field example_throwing_price ''stock'' = Some (JNum (- 1))
 \<and> statusCode (fst (app (example_request POST [''api'', ''products''] example_throwing_price)
                      example_state)) = 500"
  by code_simp

section \<open>The id that create assigns\<close>

lemma field_JObj [simp]: "field (JObj kvs) k = map_of kvs k"
  by (simp add: field_def get_prop_def)

lemma map_of_set_prop [simp]:
  "map_of (set_prop k v obj) k' = (if k' = k then v else map_of obj k')"
  by (cases v) (simp_all add: set_prop_def update_conv' delete_conv')





lemma id_or_zero_record:
  "x \<noteq> JNull \<Longrightarrow> id_or_zero x = Some (or_else (field x ''id'') (Some (JNum 0)))"
  by (cases x) (simp_all add: id_or_zero_def field_def get_prop_def)

lemma js_map_id_or_zero:
  "\<forall>x\<in>set xs. x \<noteq> JNull \<Longrightarrow>
     js_map id_or_zero xs = Some (map (\<lambda>x. or_else (field x ''id'') (Some (JNum 0))) xs)"
  by (induction xs) (simp_all add: id_or_zero_record)










text \<open>
  A new record that brings an \<^verbatim>\<open>id\<close> of its own keeps it, since \<^verbatim>\<open>...newRecord\<close> comes
  after the generated \<^verbatim>\<open>id\<close> in the object literal; no route passes such a record.
\<close>

lemma create_keeps_supplied_id:
  "fst (create ''orders.json'' (Some (JObj [(''id'', JNum 1)])) example_state)
     = Some (JObj [(''id'', JNum 1), (''createdAt'', JStr []), (''updatedAt'', JStr ''I'')])"
  by code_simp

section \<open>What update keeps\<close>

lemma get_prop_field: "x \<noteq> JNull \<Longrightarrow> get_prop (Some x) k = Some (field x k)"
  by (cases x) (simp_all add: field_def get_prop_def)

lemma id_matches_record:
  "x \<noteq> JNull \<Longrightarrow> parseInt ident = Some n \<Longrightarrow> id_matches ident x = Some (eq_num (field x ''id'') n)"
  by (simp add: id_matches_def get_prop_field)

lemma js_findIndex_defined:
  "\<forall>x\<in>set xs. p x \<noteq> None \<Longrightarrow> js_findIndex p xs \<noteq> None"
  by (induction xs) (auto split: option.splits bool.splits)

lemma js_findIndex_found:
  assumes "\<forall>x\<in>set xs. p x = Some (q x)" and "\<exists>x\<in>set xs. q x"
  shows "\<exists>k. js_findIndex p xs = Some (Some k) \<and> k < length xs \<and> q (xs ! k)
             \<and> (\<forall>j<k. \<not> q (xs ! j))"
proof -
  from assms(1) have "js_findIndex p xs \<noteq> None"
    by (intro js_findIndex_defined) auto
  then obtain r where r: "js_findIndex p xs = Some r" by auto
  show ?thesis
  proof (cases r)
    case None
    with r js_findIndex_None [of p xs] assms show ?thesis by auto
  next
    case (Some k)
    with r js_findIndex_Some [of p xs k]
    have k: "k < length xs" "p (xs ! k) = Some True" "\<forall>j<k. p (xs ! j) = Some False"
      by auto
    from k(1) assms(1) have "p (xs ! k) = Some (q (xs ! k))" by simp
    with k(2) have 1: "q (xs ! k)" by simp
    have 2: "\<forall>j<k. \<not> q (xs ! j)"
    proof (intro allI impI)
      fix j assume "j < k"
      with k(1,3) assms(1) have "p (xs ! j) = Some False" "p (xs ! j) = Some (q (xs ! j))"
        by auto
      then show "\<not> q (xs ! j)" by simp
    qed
    from r Some k(1) 1 2 show ?thesis by blast
  qed
qed

lemma js_findIndex_absent:
  assumes "\<forall>x\<in>set xs. p x = Some False"
  shows "js_findIndex p xs = Some None"
  using assms by (induction xs) auto





section \<open>Cancelling an order\<close>


lemma strict_eq_string [simp]: "strict_eq a (Some (JStr s)) \<longleftrightarrow> a = Some (JStr s)"
  by (auto simp: strict_eq_def split: option.splits jsval.splits)




lemma is_record_truthy [simp]: "is_record x \<Longrightarrow> truthy (Some x)"
  by (cases x) (auto simp: is_record_def truthy_def)




lemma merged_record_io [simp]: "merged_record x u (st\<lparr>io := l\<rparr>) = merged_record x u st"
  by (simp add: merged_record_def)











section \<open>Whole-file reads and writes\<close>

lemma Math_max_defined:
  "\<forall>v\<in>set vs. to_number v \<noteq> None \<Longrightarrow> Math_max vs \<noteq> None"
  by (induction vs) (auto split: option.splits)

lemma next_id_defined:
  assumes "\<forall>x\<in>set xs. id_converts x"
  shows "next_id (JArr xs) \<noteq> None"
proof -
  from assms have nonnull: "\<forall>x\<in>set xs. x \<noteq> JNull"
    by (simp add: id_converts_def)
  from assms have "Math_max (map (\<lambda>x. or_else (field x ''id'') (Some (JNum 0))) xs) \<noteq> None"
    by (intro Math_max_defined) (auto simp: id_converts_def id_number_def)
  with js_map_id_or_zero [OF nonnull] show ?thesis
    by (auto simp: next_id_def get_prop_def gt_zero_def to_number_def split: bool.splits)
qed

lemma create_writes:
  assumes "parsed st f = JArr xs" and "\<forall>x\<in>set xs. id_converts x"
  shows "\<exists>m. next_id (JArr xs) = Some m
           \<and> fst (create f r st) = Some (new_record r m st)
           \<and> io (snd (create f r st))
               = io st @ [Read f, Write f (JArr (xs @ [new_record r m st]))]"
proof -
  from next_id_defined [OF assms(2)] obtain m where "next_id (JArr xs) = Some m"
    by auto
  with assms(1) show ?thesis
    by (simp add: create_eq)
qed

lemma length_filter_all:
  "length (filter P xs) = length xs \<longleftrightarrow> (\<forall>x\<in>set xs. P x)"
proof (induction xs)
  case Nil
  then show ?case by simp
next
  case (Cons x xs)
  have "length (filter P xs) \<noteq> Suc (length xs)"
    using length_filter_le [of P xs] by linarith
  with Cons show ?case by auto
qed

lemma js_filter_total:
  "\<forall>x\<in>set xs. p x = Some (q x) \<Longrightarrow> js_filter p xs = Some (filter q xs)"
  by (induction xs) simp_all

lemma id_matches_all:
  assumes "JNull \<notin> set xs" and "parseInt i = Some n"
  shows "\<forall>x\<in>set xs. id_matches i x = Some (eq_num (field x ''id'') n)"
proof
  fix x assume "x \<in> set xs"
  with assms(1) have "x \<noteq> JNull" by auto
  then show "id_matches i x = Some (eq_num (field x ''id'') n)"
    using assms(2) by (rule id_matches_record)
qed

lemma deleteRecord_writes:
  assumes "parsed st f = JArr xs" and "JNull \<notin> set xs" and "parseInt i = Some n"
  shows "((\<exists>x\<in>set xs. eq_num (field x ''id'') n) \<longrightarrow>
            fst (deleteRecord f i st) = Some True
          \<and> io (snd (deleteRecord f i st))
              = io st @ [Read f, Write f (JArr (filter (\<lambda>x. \<not> eq_num (field x ''id'') n) xs))])
       \<and> ((\<forall>x\<in>set xs. \<not> eq_num (field x ''id'') n) \<longrightarrow>
            fst (deleteRecord f i st) = Some False
          \<and> io (snd (deleteRecord f i st)) = io st @ [Read f])"
proof -
  from id_matches_all [OF assms(2,3)]
  have "\<forall>x\<in>set xs. id_differs i x = Some (\<not> eq_num (field x ''id'') n)"
    by (simp add: id_differs_def)
  then have flt: "js_filter (id_differs i) xs = Some (filter (\<lambda>x. \<not> eq_num (field x ''id'') n) xs)"
    by (rule js_filter_total)
  show ?thesis
    using assms(1) flt length_filter_all [of "\<lambda>x. \<not> eq_num (field x ''id'') n" xs]
    by (auto simp: deleteRecord_eq)
qed

lemma update_writes:
  assumes "parsed st f = JArr xs" and "JNull \<notin> set xs" and "parseInt i = Some n"
  shows "((\<exists>x\<in>set xs. eq_num (field x ''id'') n) \<longrightarrow>
            (\<exists>k. first_with_id n xs k
               \<and> fst (update f i u st) = Some (merged_record (xs ! k) u st)
               \<and> io (snd (update f i u st))
                   = io st @ [Read f, Write f (JArr (xs[k := merged_record (xs ! k) u st]))]))
       \<and> ((\<forall>x\<in>set xs. \<not> eq_num (field x ''id'') n) \<longrightarrow>
            fst (update f i u st) = Some JNull
          \<and> io (snd (update f i u st)) = io st @ [Read f])"
proof (intro conjI impI)
  note matches = id_matches_all [OF assms(2,3)]
  {
    assume "\<exists>x\<in>set xs. eq_num (field x ''id'') n"
    from js_findIndex_found [OF matches this] obtain k where
      k: "js_findIndex (id_matches i) xs = Some (Some k)" "k < length xs"
         "eq_num (field (xs ! k) ''id'') n" "\<forall>j<k. \<not> eq_num (field (xs ! j) ''id'') n"
      by blast
    then have "first_with_id n xs k"
      by (simp add: first_with_id_def)
    moreover from assms(1) k(1)
    have "fst (update f i u st) = Some (merged_record (xs ! k) u st)"
      "io (snd (update f i u st))
         = io st @ [Read f, Write f (JArr (xs[k := merged_record (xs ! k) u st]))]"
      by (simp_all add: update_eq)
    ultimately show "\<exists>k. first_with_id n xs k
               \<and> fst (update f i u st) = Some (merged_record (xs ! k) u st)
               \<and> io (snd (update f i u st))
                   = io st @ [Read f, Write f (JArr (xs[k := merged_record (xs ! k) u st]))]"
      by blast
  }
  {
    assume "\<forall>x\<in>set xs. \<not> eq_num (field x ''id'') n"
    with matches have "\<forall>x\<in>set xs. id_matches i x = Some False"
      by simp
    then have none: "js_findIndex (id_matches i) xs = Some None"
      by (rule js_findIndex_absent)
    from assms(1) none show "fst (update f i u st) = Some JNull"
      by (simp add: update_eq)
    from assms(1) none show "io (snd (update f i u st)) = io st @ [Read f]"
      by (simp add: update_eq)
  }
qed

text \<open>
  C1, as the code has it. Every database operation makes exactly one \<open>readFile\<close> call on
  the named file and computes its result from what that call returns (\<open>parsed\<close>), from
  nothing else of the state but, for \<open>create\<close> and \<open>update\<close>, the clock. The five reading
  operations make no other call and change no file. A mutating operation either makes
  exactly one \<open>writeFile\<close> call, whose data is the complete updated array (the old array
  with the record appended, replaced or filtered out) and becomes the whole content of the
  file (unless the write raises), or makes no \<open>writeFile\<close> call and changes no file.
  Which of the two is settled by the file: \<open>create\<close> writes whenever the file holds an
  array without \<^verbatim>\<open>null\<close> elements whose ids convert to numbers without throwing;
  \<open>update\<close> and \<open>deleteRecord\<close>, on an array without \<^verbatim>\<open>null\<close> elements and for an id
  that \<^verbatim>\<open>parseInt\<close> converts to \<open>n\<close>, write when some record has the id \<open>n\<close> (\<open>update\<close>
  replacing the first such record, \<open>deleteRecord\<close> removing all of them) and only read
  when none has.
\<close>

theorem database_whole_file:
  "(io (snd (getAll f st)) = io st @ [Read f] \<and> files (snd (getAll f st)) = files st
  \<and> io (snd (getById f i st)) = io st @ [Read f] \<and> files (snd (getById f i st)) = files st
  \<and> io (snd (search f k v st)) = io st @ [Read f] \<and> files (snd (search f k v st)) = files st
  \<and> io (snd (filter_db f p st)) = io st @ [Read f] \<and> files (snd (filter_db f p st)) = files st
  \<and> io (snd (count f st)) = io st @ [Read f] \<and> files (snd (count f st)) = files st)
 \<and> (parsed st f = parsed st' f \<longrightarrow>
       fst (getAll f st) = fst (getAll f st')
     \<and> fst (getById f i st) = fst (getById f i st')
     \<and> fst (search f k v st) = fst (search f k v st')
     \<and> fst (filter_db f p st) = fst (filter_db f p st')
     \<and> fst (count f st) = fst (count f st')
     \<and> fst (deleteRecord f i st) = fst (deleteRecord f i st')
     \<and> (clock st = clock st' \<and> ticks st = ticks st' \<longrightarrow>
           fst (create f r st) = fst (create f r st')
         \<and> fst (update f i u st) = fst (update f i u st')))
 \<and> ((\<exists>xs record. parsed st f = JArr xs \<and> fst (create f r st) = Some record
        \<and> io (snd (create f r st)) = io st @ [Read f, Write f (JArr (xs @ [record]))]
        \<and> files (snd (create f r st))
            = (if unwritable st f then files st
               else (files st)(f := Text (JSON_stringify (JArr (xs @ [record]))))))
    \<or> (fst (create f r st) = None \<and> io (snd (create f r st)) = io st @ [Read f]
        \<and> files (snd (create f r st)) = files st))
 \<and> ((\<exists>xs k merged. parsed st f = JArr xs \<and> k < length xs \<and> fst (update f i u st) = Some merged
        \<and> io (snd (update f i u st)) = io st @ [Read f, Write f (JArr (xs[k := merged]))]
        \<and> files (snd (update f i u st))
            = (if unwritable st f then files st
               else (files st)(f := Text (JSON_stringify (JArr (xs[k := merged]))))))
    \<or> ((fst (update f i u st) = None \<or> fst (update f i u st) = Some JNull)
        \<and> io (snd (update f i u st)) = io st @ [Read f]
        \<and> files (snd (update f i u st)) = files st))
 \<and> ((\<exists>xs ys. parsed st f = JArr xs \<and> js_filter (id_differs i) xs = Some ys
        \<and> length ys \<noteq> length xs \<and> fst (deleteRecord f i st) = Some True
        \<and> io (snd (deleteRecord f i st)) = io st @ [Read f, Write f (JArr ys)]
        \<and> files (snd (deleteRecord f i st))
            = (if unwritable st f then files st
               else (files st)(f := Text (JSON_stringify (JArr ys)))))
    \<or> ((fst (deleteRecord f i st) = None \<or> fst (deleteRecord f i st) = Some False)
        \<and> io (snd (deleteRecord f i st)) = io st @ [Read f]
        \<and> files (snd (deleteRecord f i st)) = files st))
 \<and> (parsed st f = JArr xs \<and> (\<forall>x\<in>set xs. id_converts x) \<longrightarrow>
       (\<exists>m. next_id (JArr xs) = Some m
          \<and> fst (create f r st) = Some (new_record r m st)
          \<and> io (snd (create f r st))
              = io st @ [Read f, Write f (JArr (xs @ [new_record r m st]))]))
 \<and> (parsed st f = JArr xs \<and> JNull \<notin> set xs \<and> parseInt i = Some n \<longrightarrow>
       ((\<exists>x\<in>set xs. eq_num (field x ''id'') n) \<longrightarrow>
          (\<exists>k. first_with_id n xs k
             \<and> fst (update f i u st) = Some (merged_record (xs ! k) u st)
             \<and> io (snd (update f i u st))
                 = io st @ [Read f, Write f (JArr (xs[k := merged_record (xs ! k) u st]))])
        \<and> fst (deleteRecord f i st) = Some True
        \<and> io (snd (deleteRecord f i st))
            = io st @ [Read f, Write f (JArr (filter (\<lambda>x. \<not> eq_num (field x ''id'') n) xs))])
     \<and> ((\<forall>x\<in>set xs. \<not> eq_num (field x ''id'') n) \<longrightarrow>
          fst (update f i u st) = Some JNull
        \<and> io (snd (update f i u st)) = io st @ [Read f]
        \<and> fst (deleteRecord f i st) = Some False
        \<and> io (snd (deleteRecord f i st)) = io st @ [Read f]))"
proof -
  have reads: "io (snd (getAll f st)) = io st @ [Read f] \<and> files (snd (getAll f st)) = files st
  \<and> io (snd (getById f i st)) = io st @ [Read f] \<and> files (snd (getById f i st)) = files st
  \<and> io (snd (search f k v st)) = io st @ [Read f] \<and> files (snd (search f k v st)) = files st
  \<and> io (snd (filter_db f p st)) = io st @ [Read f] \<and> files (snd (filter_db f p st)) = files st
  \<and> io (snd (count f st)) = io st @ [Read f] \<and> files (snd (count f st)) = files st"
    by (rule reads_only_read)
  have results: "parsed st f = parsed st' f \<longrightarrow>
       fst (getAll f st) = fst (getAll f st')
     \<and> fst (getById f i st) = fst (getById f i st')
     \<and> fst (search f k v st) = fst (search f k v st')
     \<and> fst (filter_db f p st) = fst (filter_db f p st')
     \<and> fst (count f st) = fst (count f st')
     \<and> fst (deleteRecord f i st) = fst (deleteRecord f i st')
     \<and> (clock st = clock st' \<and> ticks st = ticks st' \<longrightarrow>
           fst (create f r st) = fst (create f r st')
         \<and> fst (update f i u st) = fst (update f i u st'))"
    using results_from_parsed [of st f st' i k v p]
      results_from_parsed_and_clock [of st f st' r i u]
    by blast
  have pinned_create: "parsed st f = JArr xs \<and> (\<forall>x\<in>set xs. id_converts x) \<longrightarrow>
       (\<exists>m. next_id (JArr xs) = Some m
          \<and> fst (create f r st) = Some (new_record r m st)
          \<and> io (snd (create f r st))
              = io st @ [Read f, Write f (JArr (xs @ [new_record r m st]))])"
    using create_writes [of st f xs r] by blast
  have pinned: "parsed st f = JArr xs \<and> JNull \<notin> set xs \<and> parseInt i = Some n \<longrightarrow>
       ((\<exists>x\<in>set xs. eq_num (field x ''id'') n) \<longrightarrow>
          (\<exists>k. first_with_id n xs k
             \<and> fst (update f i u st) = Some (merged_record (xs ! k) u st)
             \<and> io (snd (update f i u st))
                 = io st @ [Read f, Write f (JArr (xs[k := merged_record (xs ! k) u st]))])
        \<and> fst (deleteRecord f i st) = Some True
        \<and> io (snd (deleteRecord f i st))
            = io st @ [Read f, Write f (JArr (filter (\<lambda>x. \<not> eq_num (field x ''id'') n) xs))])
     \<and> ((\<forall>x\<in>set xs. \<not> eq_num (field x ''id'') n) \<longrightarrow>
          fst (update f i u st) = Some JNull
        \<and> io (snd (update f i u st)) = io st @ [Read f]
        \<and> fst (deleteRecord f i st) = Some False
        \<and> io (snd (deleteRecord f i st)) = io st @ [Read f])"
  proof (intro impI, elim conjE)
    assume h: "parsed st f = JArr xs" "JNull \<notin> set xs" "parseInt i = Some n"
    from update_writes [OF h, of u] deleteRecord_writes [OF h]
    show "((\<exists>x\<in>set xs. eq_num (field x ''id'') n) \<longrightarrow>
          (\<exists>k. first_with_id n xs k
             \<and> fst (update f i u st) = Some (merged_record (xs ! k) u st)
             \<and> io (snd (update f i u st))
                 = io st @ [Read f, Write f (JArr (xs[k := merged_record (xs ! k) u st]))])
        \<and> fst (deleteRecord f i st) = Some True
        \<and> io (snd (deleteRecord f i st))
            = io st @ [Read f, Write f (JArr (filter (\<lambda>x. \<not> eq_num (field x ''id'') n) xs))])
     \<and> ((\<forall>x\<in>set xs. \<not> eq_num (field x ''id'') n) \<longrightarrow>
          fst (update f i u st) = Some JNull
        \<and> io (snd (update f i u st)) = io st @ [Read f]
        \<and> fst (deleteRecord f i st) = Some False
        \<and> io (snd (deleteRecord f i st)) = io st @ [Read f])"
      by blast
  qed
  show ?thesis
    by (rule conjI [OF reads conjI [OF results conjI [OF create_whole
          conjI [OF update_whole conjI [OF deleteRecord_whole
            conjI [OF pinned_create pinned]]]]]])
qed

text \<open>
  C1 as stated, that every mutating operation writes the array back, fails where the
  operation finds nothing to change: \<open>update\<close> and \<open>deleteRecord\<close> with an id that no record
  has return after the read without calling \<open>writeFile\<close>, and \<open>create\<close> on a file that
  holds an object instead of an array throws before it.
\<close>

theorem database_write_counterexample:
  "parsed example_state ''orders.json'' = JArr [example_order]
 \<and> fst (update ''orders.json'' (Some (JStr ''2'')) (Some (JObj [(''status'', JStr ''shipped'')]))
         example_state) = Some JNull
 \<and> io (snd (update ''orders.json'' (Some (JStr ''2'')) (Some (JObj [(''status'', JStr ''shipped'')]))
         example_state)) = [Read ''orders.json'']
 \<and> fst (deleteRecord ''orders.json'' (Some (JStr ''2'')) example_state) = Some False
 \<and> io (snd (deleteRecord ''orders.json'' (Some (JStr ''2'')) example_state)) = [Read ''orders.json'']
 \<and> parsed example_object_file ''orders.json'' = JObj []
 \<and> fst (create ''orders.json'' (Some (JObj [(''userId'', JNum 9)])) example_object_file) = None
 \<and> io (snd (create ''orders.json'' (Some (JObj [(''userId'', JNum 9)])) example_object_file))
     = [Read ''orders.json'']"
  by code_simp


theorem database_whole_file_witness:
  "parsed example_state ''orders.json'' = parsed example_state2 ''orders.json''
 \<and> clock example_state = clock example_state2
 \<and> ticks example_state = ticks example_state2
 \<and> fst (getById ''orders.json'' (Some (JStr ''1'')) example_state)
     = fst (getById ''orders.json'' (Some (JStr ''1'')) example_state2)
 \<and> fst (count ''orders.json'' example_state) = fst (count ''orders.json'' example_state2)
 \<and> fst (create ''orders.json'' (Some (JObj [])) example_state)
     = fst (create ''orders.json'' (Some (JObj [])) example_state2)
 \<and> parsed example_state ''orders.json'' = JArr [example_order]
 \<and> list_all id_converts [example_order]
 \<and> parseInt (Some (JStr ''1'')) = Some (Num 1)
 \<and> eq_num (field example_order ''id'') (Num 1)
 \<and> io (snd (update ''orders.json'' (Some (JStr ''1''))
              (Some (JObj [(''status'', JStr ''shipped'')])) example_state))
     = [Read ''orders.json'',
        Write ''orders.json''
          (JArr [JObj [(''id'', JNum 1), (''userId'', JNum 7), (''items'', JArr [JStr ''pen'']),
                       (''totalAmount'', JNum 20), (''status'', JStr ''shipped''),
                       (''createdAt'', JStr ''T''), (''updatedAt'', JStr [])]])]
 \<and> io (snd (create ''orders.json'' (Some (JObj [])) example_state))
     = [Read ''orders.json'',
        Write ''orders.json''
          (JArr [example_order,
                 JObj [(''id'', JNum 2), (''createdAt'', JStr []), (''updatedAt'', JStr ''I'')]])]
 \<and> fst (deleteRecord ''orders.json'' (Some (JStr ''1'')) example_state) = Some True
 \<and> io (snd (deleteRecord ''orders.json'' (Some (JStr ''1'')) example_state))
     = [Read ''orders.json'', Write ''orders.json'' (JArr [])]"
proof -
  let ?u = "Some (JObj [(''status'', JStr ''shipped'')])"
  let ?m = "JObj [(''id'', JNum 1), (''userId'', JNum 7), (''items'', JArr [JStr ''pen'']),
                  (''totalAmount'', JNum 20), (''status'', JStr ''shipped''),
                  (''createdAt'', JStr ''T''), (''updatedAt'', JStr [])]"
  let ?c = "JObj [(''id'', JNum 2), (''createdAt'', JStr []), (''updatedAt'', JStr ''I'')]"
  note inst = database_whole_file [where f = "''orders.json''" and st = example_state
      and st' = example_state2 and i = "Some (JStr ''1'')" and k = "[]" and v = None
      and p = "\<lambda>_. None" and r = "Some (JObj [])" and u = ?u and xs = "[example_order]"
      and n = "Num 1"]
  note results = inst [THEN conjunct2, THEN conjunct1]
  note update_or = inst [THEN conjunct2, THEN conjunct2, THEN conjunct2, THEN conjunct1]
  note pinned_create = inst [THEN conjunct2, THEN conjunct2, THEN conjunct2, THEN conjunct2,
      THEN conjunct2, THEN conjunct1]
  note pinned = inst [THEN conjunct2, THEN conjunct2, THEN conjunct2, THEN conjunct2,
      THEN conjunct2, THEN conjunct2]
  have same: "parsed example_state ''orders.json'' = parsed example_state2 ''orders.json''"
    by code_simp
  have clk: "clock example_state = clock example_state2"
    by (simp add: example_state2_def)
  have tck: "ticks example_state = ticks example_state2"
    by (simp add: example_state2_def)
  have res: "fst (getById ''orders.json'' (Some (JStr ''1'')) example_state)
               = fst (getById ''orders.json'' (Some (JStr ''1'')) example_state2)
           \<and> fst (count ''orders.json'' example_state) = fst (count ''orders.json'' example_state2)
           \<and> fst (create ''orders.json'' (Some (JObj [])) example_state)
               = fst (create ''orders.json'' (Some (JObj [])) example_state2)"
    using results same clk tck by blast
  have content: "parsed example_state ''orders.json'' = JArr [example_order]"
    by (simp add: parsed_eq example_state_def example_files_def)
  have conv: "list_all id_converts [example_order]"
    by code_simp
  then have conv': "\<forall>x\<in>set [example_order]. id_converts x"
    by simp
  have nonnull: "JNull \<notin> set [example_order]"
    by (simp add: example_order_def)
  have ident: "parseInt (Some (JStr ''1'')) = Some (Num 1)"
    by code_simp
  have has: "eq_num (field example_order ''id'') (Num 1)"
    by code_simp
  then have has': "\<exists>x\<in>set [example_order]. eq_num (field x ''id'') (Num 1)"
    by simp
  have log: "io example_state = []"
    by (simp add: example_state_def)
  have upd: "fst (update ''orders.json'' (Some (JStr ''1'')) ?u example_state) = Some ?m"
    by code_simp
  have upd_log: "io (snd (update ''orders.json'' (Some (JStr ''1'')) ?u example_state))
          = [Read ''orders.json'', Write ''orders.json'' (JArr [?m])]"
    using update_or content upd log by auto
  have next_one: "next_id (JArr [example_order]) = Some (Num 2)"
    by code_simp
  have created: "new_record (Some (JObj [])) (Num 2) example_state = ?c"
    by code_simp
  have create_log: "io (snd (create ''orders.json'' (Some (JObj [])) example_state))
          = [Read ''orders.json'', Write ''orders.json'' (JArr [example_order, ?c])]"
    using pinned_create content conv' next_one created log by auto
  have del: "fst (deleteRecord ''orders.json'' (Some (JStr ''1'')) example_state) = Some True
      \<and> io (snd (deleteRecord ''orders.json'' (Some (JStr ''1'')) example_state))
          = [Read ''orders.json'', Write ''orders.json'' (JArr [])]"
    using pinned [rule_format, OF conjI [OF content conjI [OF nonnull ident]], THEN conjunct1,
        rule_format, OF has'] has log
    by simp
  from same clk tck res content conv ident has upd_log create_log del show ?thesis
    by blast
qed

end
